theory Spec2Isabelle
  imports Complex_Main
begin

section \<open>JavaScript values\<close>

text \<open>
  The two scripts (the current-conditions widget and the forecast widget) work on the
  values \<open>JSON.parse\<close> and \<open>Request.loadJSON\<close> hand them. A number is an IEEE double in
  the scripts; here a finite number is the rational it denotes, with the three special
  values kept apart. The sign of zero is outside this model: it shows in no result of
  the scripts. The runtime rounds every sum, product and quotient to the nearest double.
  The temperature conversion, where the rounding decides the result, is modelled with
  that rounding (\<open>round_double\<close>). The remainders \<open>%\<close> and \<open>Math.round\<close> are exact in the
  runtime. The age of a cache record and the quotient in \<open>degToDir\<close> are taken exactly:
  for a timestamp in whole milliseconds, and for degrees that are doubles, the rounding
  moves no value across the bound it is compared with.

  A string is the list of the bytes of its UTF-8 form; an ASCII character is one byte.
  Case conversion of a string of ASCII characters maps the 26 letters; of any other
  string it is what the runtime makes of it, a parameter.
\<close>

datatype num = NaN | PInf | NInf | Fin rat

datatype jv =
    Undefined
  | Null
  | Bool bool
  | Num num
  | Str string
  | Arr "jv list"
  | Obj "(string \<times> jv) list"

datatype error =
    TypeError
  | SyntaxError
  | IOError
  | NetworkError string
  | HTTPError jv

text \<open>\<open>!!v\<close>: the values JavaScript counts as true in a condition.\<close>

fun truthy :: "jv \<Rightarrow> bool" where
  "truthy Undefined = False"
| "truthy Null = False"
| "truthy (Bool b) = b"
| "truthy (Num n) = (n \<noteq> NaN \<and> n \<noteq> Fin 0)"
| "truthy (Str s) = (s \<noteq> [])"
| "truthy (Arr xs) = True"
| "truthy (Obj kvs) = True"

text \<open>\<open>v == null\<close>: true of \<open>null\<close> and \<open>undefined\<close> only.\<close>

fun nullish :: "jv \<Rightarrow> bool" where
  "nullish Undefined = True"
| "nullish Null = True"
| "nullish v = False"

text \<open>\<open>typeof v === "string"\<close>.\<close>

fun is_string :: "jv \<Rightarrow> bool" where
  "is_string (Str s) = True"
| "is_string v = False"

subsection \<open>Property access\<close>

text \<open>
  \<open>o[k]\<close> reads an own property: a member of an object, an element or the \<open>length\<close> of
  an array, a character or the \<open>length\<close> of a string. Reading a property of \<open>null\<close> or
  \<open>undefined\<close> raises a TypeError. A property that is not there reads as \<open>undefined\<close>.
  This is what the runtime does for every key the scripts read, since none of them
  names a member of a built-in prototype. Members that a value inherits from the
  prototypes (methods such as \<open>toString\<close>) are no JSON values and are not modelled, and
  the \<open>length\<close> and the characters of a string are those of ASCII text; no property
  below is stated for a key or a string beyond that. An object is an association list
  with distinct keys, as \<open>JSON.parse\<close> builds it.
\<close>

definition digit_of :: "char \<Rightarrow> nat option" where
  "digit_of c = map_of (zip ''0123456789'' [0, 1, 2, 3, 4, 5, 6, 7, 8, 9]) c"

fun digits_value :: "nat \<Rightarrow> string \<Rightarrow> nat option" where
  "digits_value acc [] = Some acc"
| "digits_value acc (c # cs) =
     (case digit_of c of None \<Rightarrow> None | Some d \<Rightarrow> digits_value (10 * acc + d) cs)"

text \<open>An array index is a decimal numeral without a leading zero.\<close>

definition index_of_key :: "string \<Rightarrow> nat option" where
  "index_of_key k =
     (if k = [] then None
      else if hd k = CHR ''0'' \<and> tl k \<noteq> [] then None
      else digits_value 0 k)"

definition nat_num :: "nat \<Rightarrow> jv" where
  "nat_num n = Num (Fin (of_nat n))"

fun getProp :: "jv \<Rightarrow> string \<Rightarrow> error + jv" where
  "getProp Undefined k = Inl TypeError"
| "getProp Null k = Inl TypeError"
| "getProp (Bool b) k = Inr Undefined"
| "getProp (Num n) k = Inr Undefined"
| "getProp (Str s) k =
     (if k = ''length'' then Inr (nat_num (length s))
      else case index_of_key k of
             None \<Rightarrow> Inr Undefined
           | Some i \<Rightarrow> if i < length s then Inr (Str [s ! i]) else Inr Undefined)"
| "getProp (Arr xs) k =
     (if k = ''length'' then Inr (nat_num (length xs))
      else case index_of_key k of
             None \<Rightarrow> Inr Undefined
           | Some i \<Rightarrow> if i < length xs then Inr (xs ! i) else Inr Undefined)"
| "getProp (Obj kvs) k =
     (case map_of kvs k of None \<Rightarrow> Inr Undefined | Some v \<Rightarrow> Inr v)"

section \<open>The safe getter\<close>

text \<open>\<open>path.split(".")\<close>: the pieces between the dots; never the empty list.\<close>

fun split_dot :: "string \<Rightarrow> string list" where
  "split_dot [] = [[]]"
| "split_dot (c # cs) =
     (if c = CHR ''.'' then [] # split_dot cs
      else (case split_dot cs of
              [] \<Rightarrow> [[c]]
            | p # ps \<Rightarrow> (c # p) # ps))"

text \<open>
  The callback of \<open>reduce\<close>: \<open>(o, k) => (o && o[k] !== undefined ? o[k] : null)\<close>.
\<close>

definition g_step :: "jv \<Rightarrow> string \<Rightarrow> error + jv" where
  "g_step o' k =
     (if truthy o' then
        (case getProp o' k of
           Inl e \<Rightarrow> Inl e
         | Inr v \<Rightarrow> if v \<noteq> Undefined then getProp o' k else Inr Null)
      else Inr Null)"

fun reduce :: "(jv \<Rightarrow> string \<Rightarrow> error + jv) \<Rightarrow> jv \<Rightarrow> string list \<Rightarrow> error + jv" where
  "reduce f acc [] = Inr acc"
| "reduce f acc (k # ks) =
     (case f acc k of Inl e \<Rightarrow> Inl e | Inr acc' \<Rightarrow> reduce f acc' ks)"

text \<open>
  \<open>function g(obj, path, fallback = null)\<close>: the default applies when the third
  argument is left out or undefined; \<open>??\<close> takes the fallback for \<open>null\<close> and
  \<open>undefined\<close>.
\<close>

definition g :: "jv \<Rightarrow> string \<Rightarrow> jv \<Rightarrow> error + jv" where
  "g obj path fallback =
     (let fb = (if fallback = Undefined then Null else fallback)
      in case reduce g_step obj (split_dot path) of
           Inl e \<Rightarrow> Inl e
         | Inr r \<Rightarrow> Inr (if nullish r then fb else r))"

section \<open>Numbers and strings of the runtime\<close>

text \<open>
  The conversions between strings and numbers belong to the JavaScript runtime, not to
  the scripts. What the scripts need of them is written out; the rest is taken as a
  parameter: how a numeric string is read, how a number that is no integer below
  \<open>2^53\<close> is printed, the case conversion of text that is not ASCII, the JSON codec,
  and the localised date and time labels. The conversion of an object to a string or
  a number calls its \<open>toString\<close>; an object read from JSON inherits the built-in one
  unless it has a member of that name, which is no function, and then the conversion
  raises a TypeError.
\<close>

record runtime =
  StringToNumber :: "string \<Rightarrow> num"
  NumberFormat :: "rat \<Rightarrow> string"
  UnicodeUpperCase :: "string \<Rightarrow> string"
  UnicodeLowerCase :: "string \<Rightarrow> string"
  JSON_parse :: "string \<Rightarrow> error + jv"
  JSON_stringify :: "jv \<Rightarrow> string"
  toLocaleTimeString :: "int \<Rightarrow> string"
  weekdayShort :: "num \<Rightarrow> num \<Rightarrow> num \<Rightarrow> string"

definition andThen :: "error + 'a \<Rightarrow> ('a \<Rightarrow> error + 'b) \<Rightarrow> error + 'b" where
  "andThen m f = (case m of Inl e \<Rightarrow> Inl e | Inr v \<Rightarrow> f v)"

definition digit_char :: "nat \<Rightarrow> char" where
  "digit_char d = ''0123456789'' ! d"

fun show_nat :: "nat \<Rightarrow> string" where
  "show_nat n = (if n < 10 then [digit_char n] else show_nat (n div 10) @ [digit_char (n mod 10)])"

declare show_nat.simps [simp del]

definition show_int :: "int \<Rightarrow> string" where
  "show_int i = (if i < 0 then CHR ''-'' # show_nat (nat (- i)) else show_nat (nat i))"

text \<open>
  \<open>Number::toString\<close>. An integer below \<open>2^53\<close> is printed with all its digits; from
  there on, and for a fraction, the runtime prints the shortest digits that read back
  as the same double.
\<close>

definition NumberToString :: "runtime \<Rightarrow> num \<Rightarrow> string" where
  "NumberToString rt n =
     (case n of
        NaN \<Rightarrow> ''NaN''
      | PInf \<Rightarrow> ''Infinity''
      | NInf \<Rightarrow> ''-Infinity''
      | Fin q \<Rightarrow>
          if of_int \<lfloor>q\<rfloor> = q \<and> \<bar>q\<bar> < 2 ^ 53 then show_int \<lfloor>q\<rfloor>
          else NumberFormat rt q)"

fun join_comma :: "string list \<Rightarrow> string" where
  "join_comma [] = []"
| "join_comma [s] = s"
| "join_comma (s # t # ss) = s @ '','' @ join_comma (t # ss)"

text \<open>
  \<open>String(v)\<close> and the conversion a template literal applies. An array is the join of
  its elements, \<open>null\<close> and \<open>undefined\<close> counting as empty.
\<close>

fun ToString :: "runtime \<Rightarrow> jv \<Rightarrow> error + string"
  and join_elements :: "runtime \<Rightarrow> jv list \<Rightarrow> error + string list" where
  "ToString rt Undefined = Inr ''undefined''"
| "ToString rt Null = Inr ''null''"
| "ToString rt (Bool b) = Inr (if b then ''true'' else ''false'')"
| "ToString rt (Num n) = Inr (NumberToString rt n)"
| "ToString rt (Str s) = Inr s"
| "ToString rt (Arr xs) = andThen (join_elements rt xs) (\<lambda>ss. Inr (join_comma ss))"
| "ToString rt (Obj kvs) =
     (if map_of kvs ''toString'' = None then Inr ''[object Object]'' else Inl TypeError)"
| "join_elements rt [] = Inr []"
| "join_elements rt (x # xs) =
     andThen (if nullish x then Inr [] else ToString rt x) (\<lambda>s.
     andThen (join_elements rt xs) (\<lambda>ss. Inr (s # ss)))"

text \<open>
  The conversion an arithmetic operator, a comparison with a number, \<open>Math.round\<close> and
  \<open>isNaN\<close> apply. An object goes through its string, which reads as no number.
\<close>

fun ToNumber :: "runtime \<Rightarrow> jv \<Rightarrow> error + num" where
  "ToNumber rt Undefined = Inr NaN"
| "ToNumber rt Null = Inr (Fin 0)"
| "ToNumber rt (Bool b) = Inr (if b then Fin 1 else Fin 0)"
| "ToNumber rt (Num n) = Inr n"
| "ToNumber rt (Str s) = Inr (StringToNumber rt s)"
| "ToNumber rt (Arr xs) = andThen (ToString rt (Arr xs)) (\<lambda>s. Inr (StringToNumber rt s))"
| "ToNumber rt (Obj kvs) = andThen (ToString rt (Obj kvs)) (\<lambda>s. Inr NaN)"

text \<open>\<open>Math.round\<close>: the nearest integer, a tie going up.\<close>

fun Math_round :: "num \<Rightarrow> num" where
  "Math_round (Fin q) = Fin (of_int \<lfloor>q + 1 / 2\<rfloor>)"
| "Math_round n = n"

text \<open>
  The nearest double of a rational: 53 binary digits from the leading one, no digit
  below \<open>2^-1074\<close>, a tie going to the even neighbour, and infinity from \<open>2^1024\<close> on.
\<close>

function bitlength :: "int \<Rightarrow> int" where
  "bitlength n = (if n \<le> 0 then 0 else 1 + bitlength (n div 2))"
  by pat_completeness auto

termination
  by (relation "measure nat") auto

declare bitlength.simps [simp del]

definition pow2 :: "int \<Rightarrow> rat" where
  "pow2 e = (if 0 \<le> e then of_int (2 ^ nat e) else 1 / of_int (2 ^ nat (- e)))"

text \<open>
  For a positive \<open>x\<close>, the \<open>e\<close> with \<open>2^e \<le> x < 2^(e+1)\<close>: the difference of the
  lengths of numerator and denominator, or one less.
\<close>

definition binade :: "rat \<Rightarrow> int" where
  "binade x =
     (let e = bitlength (fst (quotient_of x)) - bitlength (snd (quotient_of x))
      in if pow2 e \<le> x then e else e - 1)"

definition round_half_even :: "rat \<Rightarrow> int" where
  "round_half_even x =
     (let f = \<lfloor>x\<rfloor>; d = x - of_int f
      in if d < 1 / 2 then f
         else if 1 / 2 < d then f + 1
         else if even f then f else f + 1)"

definition double :: "rat \<Rightarrow> num" where
  "double x =
     (if x = 0 then Fin 0
      else let e = max (binade \<bar>x\<bar>) (- 1022);
               q = pow2 (e - 52);
               r = of_int (round_half_even (x / q)) * q
           in if pow2 1024 \<le> \<bar>r\<bar> then (if 0 < x then PInf else NInf) else Fin r)"

fun round_double :: "num \<Rightarrow> num" where
  "round_double (Fin x) = double x"
| "round_double n = n"

text \<open>\<open>a - b\<close> on numbers.\<close>

fun num_minus :: "num \<Rightarrow> num \<Rightarrow> num" where
  "num_minus (Fin a) (Fin b) = Fin (a - b)"
| "num_minus NaN b = NaN"
| "num_minus a NaN = NaN"
| "num_minus PInf PInf = NaN"
| "num_minus NInf NInf = NaN"
| "num_minus PInf b = PInf"
| "num_minus NInf b = NInf"
| "num_minus (Fin a) PInf = NInf"
| "num_minus (Fin a) NInf = PInf"

text \<open>
  \<open>a * c\<close>, \<open>a / c\<close> and \<open>a % c\<close> where the right operand is a positive constant of the
  script, as it is in every use. The remainder takes the sign of the dividend.
\<close>

fun num_times :: "num \<Rightarrow> rat \<Rightarrow> num" where
  "num_times (Fin a) c = Fin (a * c)"
| "num_times n c = n"

fun num_over :: "num \<Rightarrow> rat \<Rightarrow> num" where
  "num_over (Fin a) c = Fin (a / c)"
| "num_over n c = n"

definition trunc :: "rat \<Rightarrow> int" where
  "trunc x = (if 0 \<le> x then \<lfloor>x\<rfloor> else \<lceil>x\<rceil>)"

fun num_rem :: "num \<Rightarrow> rat \<Rightarrow> num" where
  "num_rem (Fin a) c = Fin (a - c * of_int (trunc (a / c)))"
| "num_rem n c = NaN"

text \<open>\<open>a > c\<close> and \<open>a >= c\<close> against a constant: false for \<open>NaN\<close>.\<close>

fun num_gt :: "num \<Rightarrow> rat \<Rightarrow> bool" where
  "num_gt (Fin a) c = (a > c)"
| "num_gt PInf c = True"
| "num_gt n c = False"

fun num_ge :: "num \<Rightarrow> rat \<Rightarrow> bool" where
  "num_ge (Fin a) c = (a \<ge> c)"
| "num_ge PInf c = True"
| "num_ge n c = False"

text \<open>\<open>toLowerCase\<close>, \<open>toUpperCase\<close> and \<open>includes\<close>.\<close>

definition lower_char :: "char \<Rightarrow> char" where
  "lower_char c =
     (case map_of (zip ''ABCDEFGHIJKLMNOPQRSTUVWXYZ'' ''abcdefghijklmnopqrstuvwxyz'') c of
        None \<Rightarrow> c | Some d \<Rightarrow> d)"

definition upper_char :: "char \<Rightarrow> char" where
  "upper_char c =
     (case map_of (zip ''abcdefghijklmnopqrstuvwxyz'' ''ABCDEFGHIJKLMNOPQRSTUVWXYZ'') c of
        None \<Rightarrow> c | Some d \<Rightarrow> d)"

definition is_ascii :: "char \<Rightarrow> bool" where
  "is_ascii c = (\<not> digit7 c)"

definition toLowerCase :: "runtime \<Rightarrow> string \<Rightarrow> string" where
  "toLowerCase rt s = (if list_all is_ascii s then map lower_char s else UnicodeLowerCase rt s)"

definition toUpperCase :: "runtime \<Rightarrow> string \<Rightarrow> string" where
  "toUpperCase rt s = (if list_all is_ascii s then map upper_char s else UnicodeUpperCase rt s)"

fun str_includes :: "string \<Rightarrow> string \<Rightarrow> bool" where
  "str_includes [] n = (n = [])"
| "str_includes (c # cs) n = (take (length n) (c # cs) = n \<or> str_includes cs n)"

definition em_dash :: string where
  "em_dash = [CHR 0xE2, CHR 0x80, CHR 0x94]"

definition degree_sign :: string where
  "degree_sign = [CHR 0xC2, CHR 0xB0]"

section \<open>Condition text and condition type\<close>

text \<open>
  \<open>normalizeConditionText\<close> has the same text in both scripts. It returns a string or
  \<open>null\<close>; \<open>None\<close> stands for \<open>null\<close>.
\<close>

definition normalizeConditionText :: "jv \<Rightarrow> error + string option" where
  "normalizeConditionText weatherCondition =
     (if \<not> truthy weatherCondition then Inr None
      else case weatherCondition of
        Str s \<Rightarrow> Inr (Some s)
      | _ \<Rightarrow>
        andThen (getProp weatherCondition ''description'') (\<lambda>desc.
          case desc of
            Str d \<Rightarrow> Inr (Some d)
          | _ \<Rightarrow>
            andThen (if truthy desc then getProp desc ''text'' else Inr Undefined) (\<lambda>txt.
              case txt of
                Str t \<Rightarrow> Inr (Some t)
              | _ \<Rightarrow>
                andThen (getProp weatherCondition ''type'') (\<lambda>ty.
                  case ty of
                    Str t \<Rightarrow> Inr (Some t)
                  | _ \<Rightarrow> Inr None))))"

text \<open>\<open>getConditionType\<close> of the forecast script.\<close>

definition getConditionType :: "runtime \<Rightarrow> jv \<Rightarrow> error + string" where
  "getConditionType rt weatherCondition =
     (if \<not> truthy weatherCondition then Inr []
      else andThen (getProp weatherCondition ''type'') (\<lambda>type.
        if \<not> truthy type then Inr []
        else andThen (ToString rt type) (\<lambda>s. Inr (toUpperCase rt s))))"

section \<open>Temperature and wind\<close>

text \<open>\<open>fmtTemp\<close>, \<open>fmtTempCompact\<close>, \<open>parseTempC\<close>, \<open>fmtWind\<close> and \<open>degToDir\<close>.\<close>

definition fmtTemp :: "runtime \<Rightarrow> jv \<Rightarrow> error + string" where
  "fmtTemp rt tempObj =
     andThen (g tempObj ''degrees'' Undefined) (\<lambda>val.
     andThen (g tempObj ''unit'' Undefined) (\<lambda>unit.
       if nullish val then Inr em_dash
       else let sym = (if unit = Str ''FAHRENHEIT'' then degree_sign @ ''F''
                       else degree_sign @ ''C'')
            in andThen (ToNumber rt val) (\<lambda>n.
                 Inr (NumberToString rt (Math_round n) @ sym))))"

definition fmtTempCompact :: "runtime \<Rightarrow> jv \<Rightarrow> error + string" where
  "fmtTempCompact rt tempObj =
     andThen (g tempObj ''degrees'' Undefined) (\<lambda>val.
       if nullish val then Inr em_dash
       else andThen (ToNumber rt val) (\<lambda>n.
              Inr (NumberToString rt (Math_round n) @ degree_sign)))"

definition parseTempC :: "runtime \<Rightarrow> jv \<Rightarrow> error + num option" where
  "parseTempC rt tempObj =
     andThen (g tempObj ''degrees'' Undefined) (\<lambda>val.
     andThen (g tempObj ''unit'' Undefined) (\<lambda>unit.
       if nullish val then Inr None
       else andThen (ToNumber rt val) (\<lambda>n.
         if unit = Str ''FAHRENHEIT''
         then Inr (Some (Math_round
                (round_double (num_over
                   (round_double (num_times
                      (round_double (num_minus n (Fin 32))) 5)) 9))))
         else Inr (Some (Math_round n)))))"

definition dirs :: "string list" where
  "dirs = [''N'', ''NNE'', ''NE'', ''ENE'', ''E'', ''ESE'', ''SE'', ''SSE'',
           ''S'', ''SSW'', ''SW'', ''WSW'', ''W'', ''WNW'', ''NW'', ''NNW'']"

text \<open>
  \<open>dirs[n]\<close> reads the property whose key is the number printed as a string, so the
  result is \<open>undefined\<close> for a negative index and for \<open>NaN\<close>.
\<close>

definition degToDir :: "runtime \<Rightarrow> jv \<Rightarrow> error + jv" where
  "degToDir rt deg =
     (if nullish deg then Inr (Str [])
      else andThen (ToNumber rt deg) (\<lambda>n.
        if n = NaN then Inr (Str [])
        else getProp (Arr (map Str dirs))
               (NumberToString rt
                  (num_rem (Math_round (num_over (num_rem n 360) (45 / 2))) 16))))"

definition fmtWind :: "runtime \<Rightarrow> jv \<Rightarrow> error + string" where
  "fmtWind rt windObj =
     andThen (g windObj ''speed.value'' Undefined) (\<lambda>spdVal.
     andThen (g windObj ''speed.unit'' Undefined) (\<lambda>spdUnit.
       let sym = (if spdUnit = Str ''MILE_PER_HOUR'' then ''mph''
                  else if spdUnit = Str ''METER_PER_SECOND'' then ''m/s''
                  else ''km/h'')
       in if nullish spdVal then Inr em_dash
          else
            andThen (g windObj ''direction.degrees'' Undefined) (\<lambda>dirDeg.
            andThen (degToDir rt dirDeg) (\<lambda>dirTxt.
            andThen (ToNumber rt spdVal) (\<lambda>n.
            andThen (if truthy dirTxt then ToString rt dirTxt else Inr []) (\<lambda>dir.
              Inr (NumberToString rt (Math_round n) @ '' '' @ sym
                   @ (if truthy dirTxt then '' '' @ dir else []))))))))"

section \<open>Condition to symbol\<close>

text \<open>\<open>pickSymbol\<close> of the current-conditions script: rules on the lowercased text.\<close>

definition pickSymbol :: "runtime \<Rightarrow> jv \<Rightarrow> jv \<Rightarrow> error + string" where
  "pickSymbol rt weatherCondition isDaytime =
     andThen (normalizeConditionText weatherCondition) (\<lambda>norm.
       let text = (case norm of None \<Rightarrow> [] | Some s \<Rightarrow> s);
           t = toLowerCase rt text;
           day = truthy isDaytime
       in Inr (
         if str_includes t ''thunder'' \<or> str_includes t ''storm'' then ''cloud.bolt.rain.fill''
         else if str_includes t ''snow'' \<or> str_includes t ''sleet'' then ''cloud.snow.fill''
         else if str_includes t ''rain'' \<or> str_includes t ''drizzle'' then ''cloud.rain.fill''
         else if str_includes t ''fog'' \<or> str_includes t ''mist'' \<or> str_includes t ''haze''
           then ''cloud.fog.fill''
         else if str_includes t ''overcast'' then ''smoke.fill''
         else if str_includes t ''cloud''
           then (if day then ''cloud.sun.fill'' else ''cloud.moon.fill'')
         else if str_includes t ''clear'' \<or> str_includes t ''sunny''
           then (if day then ''sun.max.fill'' else ''moon.stars.fill'')
         else (if day then ''sun.max.fill'' else ''moon.stars.fill'')))"

text \<open>
  \<open>pickSymbol\<close> of the forecast script: rules on the uppercased type first, then rules
  on the lowercased text.
\<close>

definition typed_rules :: "string \<Rightarrow> bool \<Rightarrow> string option" where
  "typed_rules t day =
     (if str_includes t ''THUNDER'' \<or> str_includes t ''STORM'' then Some ''cloud.bolt.rain.fill''
      else if str_includes t ''SNOW'' then Some ''cloud.snow.fill''
      else if str_includes t ''RAIN'' then Some ''cloud.rain.fill''
      else if str_includes t ''SHOWERS'' then Some ''cloud.rain.fill''
      else if str_includes t ''FOG'' then Some ''cloud.fog.fill''
      else if str_includes t ''HAZE'' \<or> str_includes t ''MIST'' then Some ''cloud.fog.fill''
      else if str_includes t ''OVERCAST'' then Some ''smoke.fill''
      else if str_includes t ''MOSTLY_CLOUDY'' \<or> str_includes t ''CLOUDY''
        then Some (if day then ''cloud.sun.fill'' else ''cloud.moon.fill'')
      else if str_includes t ''PARTLY_CLOUDY''
        then Some (if day then ''cloud.sun.fill'' else ''cloud.moon.fill'')
      else if str_includes t ''CLEAR'' \<or> str_includes t ''SUNNY''
        then Some (if day then ''sun.max.fill'' else ''moon.stars.fill'')
      else None)"

definition text_rules :: "string \<Rightarrow> bool \<Rightarrow> string option" where
  "text_rules desc day =
     (if str_includes desc ''storm'' \<or> str_includes desc ''thunder''
        then Some ''cloud.bolt.rain.fill''
      else if str_includes desc ''snow'' then Some ''cloud.snow.fill''
      else if str_includes desc ''rain'' then Some ''cloud.rain.fill''
      else if str_includes desc ''fog'' \<or> str_includes desc ''mist'' \<or> str_includes desc ''haze''
        then Some ''cloud.fog.fill''
      else if str_includes desc ''cloud''
        then Some (if day then ''cloud.sun.fill'' else ''cloud.moon.fill'')
      else if str_includes desc ''clear'' \<or> str_includes desc ''sunny''
        then Some (if day then ''sun.max.fill'' else ''moon.stars.fill'')
      else None)"

definition pickSymbol_daily :: "runtime \<Rightarrow> jv \<Rightarrow> jv \<Rightarrow> error + string" where
  "pickSymbol_daily rt weatherCondition isDaytime =
     andThen (getConditionType rt weatherCondition) (\<lambda>type.
       let t = toUpperCase rt type;
           day = truthy isDaytime
       in case typed_rules t day of
            Some name \<Rightarrow> Inr name
          | None \<Rightarrow>
            andThen (normalizeConditionText weatherCondition) (\<lambda>norm.
              let desc = toLowerCase rt (case norm of None \<Rightarrow> [] | Some s \<Rightarrow> s)
              in case text_rules desc day of
                   Some name \<Rightarrow> Inr name
                 | None \<Rightarrow> Inr (if day then ''sun.max.fill'' else ''moon.stars.fill'')))"

section \<open>Background gradient\<close>

record gradient =
  colors :: "string list"
  locations :: "rat list"

definition cold :: "string list" where "cold = [''#1e3c72'', ''#2a5298'']"
definition mild :: "string list" where "mild = [''#396afc'', ''#2948ff'']"
definition hot :: "string list" where "hot = [''#ff512f'', ''#dd2476'']"
definition night :: "string list" where "night = [''#0f2027'', ''#203a43'']"

text \<open>The choice by temperature, the same text in both scripts.\<close>

definition colors_by_temp :: "num option \<Rightarrow> string list" where
  "colors_by_temp tempC =
     (case tempC of
        None \<Rightarrow> cold
      | Some c \<Rightarrow> if num_ge c 24 then hot else if num_ge c 10 then mild else cold)"

text \<open>\<open>gradientFor(tempC, isDay)\<close> of the current-conditions script.\<close>

definition gradientFor :: "num option \<Rightarrow> jv \<Rightarrow> gradient" where
  "gradientFor tempC isDay =
     (let colors0 = colors_by_temp tempC;
          colors1 = (if \<not> truthy isDay then night else colors0)
      in \<lparr>colors = colors1, locations = [0, 1]\<rparr>)"

text \<open>\<open>gradientFor(tempC)\<close> of the forecast script.\<close>

definition gradientFor_daily :: "num option \<Rightarrow> gradient" where
  "gradientFor_daily tempC = \<lparr>colors = colors_by_temp tempC, locations = [0, 1]\<rparr>"

section \<open>Cache\<close>

text \<open>
  Each script keeps one cache file. The world is the content of that file, if it is
  there, and whether the file manager accepts a write. \<open>Date.now()\<close> is an argument: the
  milliseconds since the epoch at the call.
\<close>

record world =
  cacheFile :: "string option"
  writable :: bool

definition CACHE_MIN :: rat where "CACHE_MIN = 5"
definition CACHE_MIN_daily :: rat where "CACHE_MIN_daily = 20"

definition fileExists :: "world \<Rightarrow> bool" where
  "fileExists w = (cacheFile w \<noteq> None)"

definition readString :: "world \<Rightarrow> error + string" where
  "readString w = (case cacheFile w of None \<Rightarrow> Inl IOError | Some s \<Rightarrow> Inr s)"

definition writeString :: "world \<Rightarrow> string \<Rightarrow> error + world" where
  "writeString w s = (if writable w then Inr (w\<lparr>cacheFile := Some s\<rparr>) else Inl IOError)"

text \<open>The body of the \<open>try\<close> in \<open>readCache\<close>; \<open>cache_min\<close> is the script's \<open>CACHE_MIN\<close>.\<close>

definition readCache_body :: "runtime \<Rightarrow> rat \<Rightarrow> int \<Rightarrow> world \<Rightarrow> error + jv" where
  "readCache_body rt cache_min now w =
     andThen (readString w) (\<lambda>s.
     andThen (JSON_parse rt s) (\<lambda>obj.
     andThen (getProp obj ''timestamp'') (\<lambda>timestamp.
       if \<not> truthy timestamp then Inr Null
       else andThen (ToNumber rt timestamp) (\<lambda>t.
            let ageMin = num_over (num_minus (Fin (of_int now)) t) 60000
            in if num_gt ageMin cache_min then Inr Null
               else getProp obj ''data''))))"

definition readCache :: "runtime \<Rightarrow> rat \<Rightarrow> int \<Rightarrow> world \<Rightarrow> jv" where
  "readCache rt cache_min now w =
     (if \<not> fileExists w then Null
      else case readCache_body rt cache_min now w of
             Inl e \<Rightarrow> Null
           | Inr v \<Rightarrow> v)"

definition cache_record :: "int \<Rightarrow> jv \<Rightarrow> jv" where
  "cache_record now data = Obj [(''timestamp'', Num (Fin (of_int now))), (''data'', data)]"

definition writeCache :: "runtime \<Rightarrow> int \<Rightarrow> jv \<Rightarrow> world \<Rightarrow> world" where
  "writeCache rt now data w =
     (case writeString w (JSON_stringify rt (cache_record now data)) of
        Inl e \<Rightarrow> w
      | Inr w' \<Rightarrow> w')"

section \<open>Fetch and the choice between fresh and cached data\<close>

text \<open>
  What the request gives back: the outcome of \<open>req.loadJSON()\<close> and the object
  \<open>req.response\<close>. \<open>fetchWeather\<close> and \<open>fetchForecast\<close> differ in the address only.
\<close>

record reply =
  loadJSON :: "error + jv"
  response :: jv

definition fetchWeather :: "runtime \<Rightarrow> reply \<Rightarrow> error + jv" where
  "fetchWeather rt req =
     andThen (loadJSON req) (\<lambda>json.
     andThen (if truthy (response req) then getProp (response req) ''statusCode''
              else Inr (response req)) (\<lambda>statusCode.
       if truthy (response req) \<and> truthy statusCode
       then andThen (ToNumber rt statusCode) (\<lambda>n.
              if num_ge n 400 then Inl (HTTPError statusCode) else Inr json)
       else Inr json))"

definition fetchForecast :: "runtime \<Rightarrow> reply \<Rightarrow> error + jv" where
  "fetchForecast rt req = fetchWeather rt req"

text \<open>
  The block of the main program from \<open>data = readCache()\<close> to the end of the inner
  \<open>try\<close>: the data the widget is built from, or the error thrown on, and the world
  afterwards. \<open>now_r\<close> and \<open>now_w\<close> are the clock at the read and at the write.
\<close>

definition main_data ::
  "runtime \<Rightarrow> rat \<Rightarrow> (runtime \<Rightarrow> reply \<Rightarrow> error + jv) \<Rightarrow> reply \<Rightarrow> int \<Rightarrow> int \<Rightarrow> world
     \<Rightarrow> (error + jv) \<times> world" where
  "main_data rt cache_min fetch req now_r now_w w =
     (let data = readCache rt cache_min now_r w
      in case fetch rt req of
           Inr fresh \<Rightarrow> (Inr fresh, writeCache rt now_w fresh w)
         | Inl netErr \<Rightarrow>
             if \<not> truthy data then (Inl netErr, w)
             else (Inr data, w))"

definition main_current :: "runtime \<Rightarrow> reply \<Rightarrow> int \<Rightarrow> int \<Rightarrow> world \<Rightarrow> (error + jv) \<times> world" where
  "main_current rt = main_data rt CACHE_MIN fetchWeather"

definition main_daily :: "runtime \<Rightarrow> reply \<Rightarrow> int \<Rightarrow> int \<Rightarrow> world \<Rightarrow> (error + jv) \<times> world" where
  "main_daily rt = main_data rt CACHE_MIN_daily fetchForecast"

section \<open>Building the widget\<close>

text \<open>
  A widget is the list of the things added to it, its background and the date after
  which it asks to be refreshed. Fonts, sizes and text colours are left out.
\<close>

datatype element = Text string | Image string | Spacer | Stack "element list"

record widget =
  elements :: "element list"
  backgroundGradient :: "gradient option"
  refreshAfterDate :: "int option"

definition kv :: "string \<Rightarrow> string \<Rightarrow> element" where
  "kv label v = Stack [Text label, Text v]"

definition percent :: "runtime \<Rightarrow> jv \<Rightarrow> error + string" where
  "percent rt hum =
     (if \<not> nullish hum then andThen (ToString rt hum) (\<lambda>s. Inr (s @ ''%''))
      else Inr em_dash)"

definition REFRESH_MIN :: int where "REFRESH_MIN = 10"
definition REFRESH_MIN_daily :: int where "REFRESH_MIN_daily = 30"
definition DAYS :: nat where "DAYS = 6"

text \<open>\<open>buildWidget\<close> of the current-conditions script.\<close>

definition buildWidget :: "runtime \<Rightarrow> int \<Rightarrow> jv \<Rightarrow> string \<Rightarrow> error + widget" where
  "buildWidget rt now data placeName =
     andThen (g data ''weatherCondition'' Undefined) (\<lambda>weatherCond.
     andThen (normalizeConditionText weatherCond) (\<lambda>condTextNorm.
     andThen (g data ''isDaytime'' Undefined) (\<lambda>isDaytime.
     andThen (g data ''temperature'' Undefined) (\<lambda>tempObj.
     andThen (g data ''feelsLikeTemperature'' Undefined) (\<lambda>feelsObj.
     andThen (g data ''relativeHumidity'' Undefined) (\<lambda>hum.
     andThen (g data ''wind'' Undefined) (\<lambda>windObj.
     andThen (fmtTemp rt tempObj) (\<lambda>tempStr.
     andThen (fmtTemp rt feelsObj) (\<lambda>feelsStr.
     andThen (fmtWind rt windObj) (\<lambda>windStr.
     andThen (parseTempC rt tempObj) (\<lambda>tempC.
     andThen (pickSymbol rt weatherCond (Bool (truthy isDaytime))) (\<lambda>symName.
     andThen (percent rt hum) (\<lambda>humStr.
       let condStr = (case condTextNorm of
                        None \<Rightarrow> em_dash
                      | Some s \<Rightarrow> if s = [] then em_dash else s);
           isDay = Bool (truthy isDaytime);
           top = Stack [Text (if placeName = [] then ''Current location'' else placeName),
                        Spacer, Text (toLocaleTimeString rt now)];
           mid = Stack [Image symName, Spacer, Text tempStr];
           row = Stack [kv ''Feels'' feelsStr, Spacer, kv ''Hum'' humStr, Spacer,
                        kv ''Wind'' windStr]
       in Inr \<lparr>elements = [top, Spacer, mid, Spacer, Text condStr, Spacer, row],
               backgroundGradient = Some (gradientFor tempC isDay),
               refreshAfterDate = Some (now + REFRESH_MIN * 60 * 1000)\<rparr>)))))))))))))"

text \<open>One turn of the loop over the days in the forecast script.\<close>

definition day_label :: "runtime \<Rightarrow> nat \<Rightarrow> jv \<Rightarrow> error + string" where
  "day_label rt i dd =
     andThen (if truthy dd then getProp dd ''year'' else Inr dd) (\<lambda>year.
     andThen (if truthy dd \<and> truthy year then getProp dd ''month'' else Inr year) (\<lambda>month.
     andThen (if truthy dd \<and> truthy year \<and> truthy month then getProp dd ''day'' else Inr month)
       (\<lambda>day.
     andThen (if truthy dd \<and> truthy year \<and> truthy month \<and> truthy day
              then andThen (ToNumber rt month) (\<lambda>m.
                   andThen (ToNumber rt year) (\<lambda>y.
                   andThen (ToNumber rt day) (\<lambda>d.
                     Inr (weekdayShort rt y (round_double (num_minus m (Fin 1))) d))))
              else Inr []) (\<lambda>weekday.
       Inr (if weekday = [] then (if i = 0 then ''Today'' else CHR ''+'' # show_nat i)
            else weekday)))))"

definition first_truthy :: "jv \<Rightarrow> jv \<Rightarrow> jv" where
  "first_truthy a b = (if truthy a then a else b)"

definition day_stack :: "runtime \<Rightarrow> nat \<Rightarrow> jv \<Rightarrow> error + element" where
  "day_stack rt i d =
     andThen (g d ''displayDate'' Undefined) (\<lambda>dd.
     andThen (day_label rt i dd) (\<lambda>weekday.
     andThen (g d ''maxTemperature'' Undefined) (\<lambda>dMax.
     andThen (g d ''minTemperature'' Undefined) (\<lambda>dMin.
     andThen (g d ''daytimeForecast'' Undefined) (\<lambda>dDayPart.
     andThen (g d ''nighttimeForecast'' Undefined) (\<lambda>dNightPart.
     andThen (g dDayPart ''weatherCondition'' Undefined) (\<lambda>c1.
     andThen (g dNightPart ''weatherCondition'' Undefined) (\<lambda>c2.
     andThen (pickSymbol_daily rt (first_truthy c1 c2) (Bool True)) (\<lambda>dSymName.
     andThen (fmtTempCompact rt dMax) (\<lambda>tmax.
     andThen (fmtTempCompact rt dMin) (\<lambda>tmin.
       Inr (Stack [Image dSymName, Spacer,
                   Stack [Text weekday, Text (tmax @ '' / '' @ tmin)]]))))))))))))"

fun mini_row :: "runtime \<Rightarrow> nat \<Rightarrow> nat \<Rightarrow> jv list \<Rightarrow> error + element list" where
  "mini_row rt maxDays i [] = Inr []"
| "mini_row rt maxDays i (d # ds) =
     (if i < maxDays then
        andThen (day_stack rt i d) (\<lambda>e.
        andThen (mini_row rt maxDays (Suc i) ds) (\<lambda>es.
          Inr (if i < maxDays - 1 then e # Spacer # es else e # es)))
      else Inr [])"

definition no_forecast :: widget where
  "no_forecast = \<lparr>elements = [Text ''No forecast data''], backgroundGradient = None,
                  refreshAfterDate = None\<rparr>"

text \<open>\<open>buildWidget\<close> of the forecast script.\<close>

definition buildWidget_daily :: "runtime \<Rightarrow> int \<Rightarrow> jv \<Rightarrow> string \<Rightarrow> error + widget" where
  "buildWidget_daily rt now forecast placeName =
     andThen (g forecast ''forecastDays'' (Arr [])) (\<lambda>daysArr.
       case daysArr of
         Arr (today # rest) \<Rightarrow>
           andThen (g today ''maxTemperature'' Undefined) (\<lambda>maxTempObj.
           andThen (g today ''feelsLikeMaxTemperature'' Undefined) (\<lambda>feelsMaxObj.
           andThen (g today ''feelsLikeMinTemperature'' Undefined) (\<lambda>feelsMinObj.
           andThen (g today ''daytimeForecast'' Undefined) (\<lambda>dayPart.
           andThen (g today ''nighttimeForecast'' Undefined) (\<lambda>nightPart.
           andThen (g dayPart ''weatherCondition'' Undefined) (\<lambda>dayCond.
           andThen (g nightPart ''weatherCondition'' Undefined) (\<lambda>nightCond.
           andThen (g dayPart ''relativeHumidity'' Undefined) (\<lambda>dayHum.
           andThen (g dayPart ''wind'' Undefined) (\<lambda>dayWindObj.
           andThen (parseTempC rt maxTempObj) (\<lambda>maxTempC.
           andThen (fmtTemp rt maxTempObj) (\<lambda>currentTempStr.
           andThen (fmtTemp rt feelsMaxObj) (\<lambda>feelsMaxStr.
           andThen (fmtTemp rt feelsMinObj) (\<lambda>feelsMinStr.
           andThen (fmtWind rt dayWindObj) (\<lambda>windStr.
           andThen (percent rt dayHum) (\<lambda>humStr.
           andThen (pickSymbol_daily rt (first_truthy dayCond nightCond) (Bool True))
             (\<lambda>todaySymbolName.
           andThen (mini_row rt (min DAYS (length (today # rest))) 0 (today # rest))
             (\<lambda>miniRow.
             let header = Stack [Text (if placeName = [] then ''Location'' else placeName),
                                 Spacer, Text (toLocaleTimeString rt now)];
                 todayStack = Stack [Image todaySymbolName, Spacer,
                                     Stack [Text currentTempStr]];
                 detailRow = Stack [kv ''Feels'' (feelsMaxStr @ ''/'' @ feelsMinStr), Spacer,
                                    kv ''Hum'' humStr, Spacer,
                                    kv ''Wind'' windStr]
             in Inr \<lparr>elements = [header, Spacer, todayStack, Spacer, detailRow, Spacer,
                                  Stack miniRow],
                     backgroundGradient = Some (gradientFor_daily maxTempC),
                     refreshAfterDate = Some (now + REFRESH_MIN_daily * 60 * 1000)\<rparr>
           )))))))))))))))))
       | _ \<Rightarrow> Inr no_forecast)"

section \<open>Reading a path\<close>

text \<open>
  Two readings of "the value at a dotted path". In a JSON tree the keys of an object are
  its members and the keys of an array are its indices; a string, a number and a boolean
  are leaves. The own properties the getter reads are more: also the \<open>length\<close> of an
  array, and the characters and the \<open>length\<close> of a string that is not empty.
\<close>

fun json_child :: "jv \<Rightarrow> string \<Rightarrow> jv option" where
  "json_child (Obj kvs) k = map_of kvs k"
| "json_child (Arr xs) k =
     (case index_of_key k of
        None \<Rightarrow> None
      | Some i \<Rightarrow> if i < length xs then Some (xs ! i) else None)"
| "json_child v k = None"

fun own_child :: "jv \<Rightarrow> string \<Rightarrow> jv option" where
  "own_child (Obj kvs) k = map_of kvs k"
| "own_child (Arr xs) k =
     (if k = ''length'' then Some (nat_num (length xs))
      else case index_of_key k of
             None \<Rightarrow> None
           | Some i \<Rightarrow> if i < length xs then Some (xs ! i) else None)"
| "own_child (Str s) k =
     (if s = [] then None
      else if k = ''length'' then Some (nat_num (length s))
      else case index_of_key k of
             None \<Rightarrow> None
           | Some i \<Rightarrow> if i < length s then Some (Str [s ! i]) else None)"
| "own_child v k = None"

text \<open>
  The value at a list of keys: every key has to be there with a value that is neither
  \<open>null\<close> nor \<open>undefined\<close>.
\<close>

fun value_at :: "(jv \<Rightarrow> string \<Rightarrow> jv option) \<Rightarrow> jv \<Rightarrow> string list \<Rightarrow> jv option" where
  "value_at child v [] = (if nullish v then None else Some v)"
| "value_at child v (k # ks) =
     (case child v k of
        None \<Rightarrow> None
      | Some c \<Rightarrow> if nullish c then None else value_at child c ks)"

text \<open>The getter as the specification words it, on the keys of the JSON tree.\<close>

definition spec_g :: "jv \<Rightarrow> string \<Rightarrow> jv \<Rightarrow> jv" where
  "spec_g obj path fallback =
     (case value_at json_child obj (split_dot path) of
        None \<Rightarrow> (if fallback = Undefined then Null else fallback)
      | Some v \<Rightarrow> v)"

text \<open>
  The names the two scripts pass to the getter, alone or joined by dots. None of them
  is \<open>length\<close>, an index, or a member that a value inherits from a built-in prototype.
\<close>

definition getter_keys :: "string list" where
  "getter_keys =
     [''degrees'', ''unit'', ''speed'', ''value'', ''direction'', ''weatherCondition'',
      ''isDaytime'', ''temperature'', ''feelsLikeTemperature'', ''relativeHumidity'', ''wind'',
      ''forecastDays'', ''maxTemperature'', ''minTemperature'', ''feelsLikeMaxTemperature'',
      ''feelsLikeMinTemperature'', ''daytimeForecast'', ''nighttimeForecast'', ''displayDate'']"

section \<open>The rule list of the condition text\<close>

text \<open>
  A member of a JSON object; \<open>undefined\<close> where there is none, and for every value that
  is no object.
\<close>

fun member :: "jv \<Rightarrow> string \<Rightarrow> jv" where
  "member (Obj kvs) k = (case map_of kvs k of None \<Rightarrow> Undefined | Some v \<Rightarrow> v)"
| "member v k = Undefined"

text \<open>
  The rule list as the specification words it: a string itself; else a string
  \<open>description\<close>; else the string \<open>text\<close> of the \<open>description\<close>; else a string \<open>type\<close>;
  else absent.
\<close>

definition spec_normalizeConditionText :: "jv \<Rightarrow> string option" where
  "spec_normalizeConditionText raw =
     (case raw of
        Str s \<Rightarrow> Some s
      | _ \<Rightarrow>
        (case member raw ''description'' of
           Str d \<Rightarrow> Some d
         | _ \<Rightarrow>
           (case member (member raw ''description'') ''text'' of
              Str t \<Rightarrow> Some t
            | _ \<Rightarrow>
              (case member raw ''type'' of
                 Str t \<Rightarrow> Some t
               | _ \<Rightarrow> None))))"

text \<open>The string a value is, if it is one.\<close>

fun str_of :: "jv \<Rightarrow> string option" where
  "str_of (Str s) = Some s"
| "str_of v = None"

section \<open>Words for the symbol rules\<close>

text \<open>
  A runtime for the examples. Its conversions are stand-ins: no example below reads a
  numeric string, prints a fraction, converts the case of text that is not ASCII or
  touches the JSON codec unless it says so.
\<close>

definition plain_runtime :: runtime where
  "plain_runtime =
     \<lparr>StringToNumber = (\<lambda>s. NaN), NumberFormat = (\<lambda>q. ''?''),
      UnicodeUpperCase = (\<lambda>s. s), UnicodeLowerCase = (\<lambda>s. s),
      JSON_parse = (\<lambda>s. Inl SyntaxError), JSON_stringify = (\<lambda>v. []),
      toLocaleTimeString = (\<lambda>t. []), weekdayShort = (\<lambda>y m d. [])\<rparr>"

text \<open>
  The uppercased \<open>type\<close> of a condition, empty when there is none, and the text of a
  condition, empty when there is none. A \<open>type\<close> that is no string is converted to one,
  which raises for an object with a \<open>toString\<close> member.
\<close>

definition type_label :: "runtime \<Rightarrow> jv \<Rightarrow> error + string" where
  "type_label rt raw =
     (if truthy (member raw ''type'')
      then andThen (ToString rt (member raw ''type'')) (\<lambda>s. Inr (toUpperCase rt s))
      else Inr [])"

definition text_label :: "jv \<Rightarrow> string" where
  "text_label raw =
     (case (if raw = Str [] then None else spec_normalizeConditionText raw) of
        None \<Rightarrow> []
      | Some s \<Rightarrow> s)"

text \<open>The clear-sky symbol of the day or of the night.\<close>

definition clear_sky :: "jv \<Rightarrow> string" where
  "clear_sky isDaytime = (if truthy isDaytime then ''sun.max.fill'' else ''moon.stars.fill'')"

text \<open>
  The choice in the forecast script as the specification words it: a condition that
  carries a \<open>type\<close> is decided by the rules on the type alone, the rules on the text
  are for a condition without one.
\<close>

definition spec_pickSymbol_daily :: "runtime \<Rightarrow> jv \<Rightarrow> jv \<Rightarrow> error + string" where
  "spec_pickSymbol_daily rt raw isDaytime =
     (if member raw ''type'' \<noteq> Undefined then
        andThen (type_label rt raw) (\<lambda>type.
          case typed_rules (toUpperCase rt type) (truthy isDaytime) of
            None \<Rightarrow> Inr (clear_sky isDaytime)
          | Some name \<Rightarrow> Inr name)
      else
        (case text_rules (toLowerCase rt (text_label raw)) (truthy isDaytime) of
           None \<Rightarrow> Inr (clear_sky isDaytime)
         | Some name \<Rightarrow> Inr name))"




section \<open>Words for the temperature\<close>

text \<open>
  The double that the text \<open>74.3\<close> denotes, a little below \<open>74.3\<close>, and the one that
  \<open>98.6\<close> denotes.
\<close>

definition fahrenheit_74_3 :: rat where
  "fahrenheit_74_3 = 5228397692400435 / 70368744177664"

definition fahrenheit_98_6 :: rat where
  "fahrenheit_98_6 = 3469179087958835 / 35184372088832"

text \<open>
  The conversion from degrees Fahrenheit as the specification words it, the formula
  \<open>round((v - 32) * 5 / 9)\<close> on the numbers themselves.
\<close>

definition spec_celsius :: "rat \<Rightarrow> int" where
  "spec_celsius v = \<lfloor>(v - 32) * 5 / 9 + 1 / 2\<rfloor>"

section \<open>Words for the wind\<close>

text \<open>Two wind objects for the examples.\<close>

definition wind_335 :: jv where
  "wind_335 = Obj [(''speed'', Obj [(''value'', Num (Fin 8.4)), (''unit'', Str ''KILOMETERS_PER_HOUR'')]),
                   (''direction'', Obj [(''degrees'', Num (Fin 335))])]"

definition wind_minus_20 :: jv where
  "wind_minus_20 = Obj [(''speed'', Obj [(''value'', Num (Fin 8.4)), (''unit'', Str ''KILOMETERS_PER_HOUR'')]),
                   (''direction'', Obj [(''degrees'', Num (Fin (- 20)))])]"

text \<open>
  The index into the sixteen directions as the specification gives it, with the
  mathematical remainder: \<open>round((d mod 360) / 22.5) mod 16\<close>.
\<close>

definition compass_index :: "rat \<Rightarrow> nat" where
  "compass_index d = nat (\<lfloor>(d - 360 * of_int \<lfloor>d / 360\<rfloor>) / (45 / 2) + 1 / 2\<rfloor> mod 16)"

text \<open>The unit symbol of a wind speed.\<close>

definition unit_symbol :: "jv \<Rightarrow> string" where
  "unit_symbol spdUnit =
     (if spdUnit = Str ''MILE_PER_HOUR'' then ''mph''
      else if spdUnit = Str ''METER_PER_SECOND'' then ''m/s''
      else ''km/h'')"

section \<open>Words for the cache and the main program\<close>

text \<open>
  A runtime for the examples whose JSON codec knows a single document: everything is
  written as the text \<open>document\<close>, and that text is read back as the given value.
\<close>

definition one_document_runtime :: "jv \<Rightarrow> runtime" where
  "one_document_runtime doc =
     plain_runtime
       \<lparr>JSON_parse := (\<lambda>s. if s = ''document'' then Inr doc else Inl SyntaxError),
        JSON_stringify := (\<lambda>v. ''document'')\<rparr>"

text \<open>
  The choice of the data as the specification words it: the fresh response when the
  fetch succeeds, with the cache written; when the fetch fails, the cached value if one
  was read, and the error of the fetch if none was.
\<close>

definition spec_main_data ::
  "runtime \<Rightarrow> rat \<Rightarrow> (runtime \<Rightarrow> reply \<Rightarrow> error + jv) \<Rightarrow> reply \<Rightarrow> int \<Rightarrow> int \<Rightarrow> world
     \<Rightarrow> (error + jv) \<times> world" where
  "spec_main_data rt cache_min fetch req now_r now_w w =
     (case fetch rt req of
        Inr fresh \<Rightarrow> (Inr fresh, writeCache rt now_w fresh w)
      | Inl netErr \<Rightarrow>
          if nullish (readCache rt cache_min now_r w) then (Inl netErr, w)
          else (Inr (readCache rt cache_min now_r w), w))"

text \<open>\<open>a \<le> c\<close> against a constant: false for \<open>NaN\<close>.\<close>

fun num_le :: "num \<Rightarrow> rat \<Rightarrow> bool" where
  "num_le (Fin a) c = (a \<le> c)"
| "num_le NInf c = True"
| "num_le n c = False"

text \<open>
  Reading the cache as the specification words it: the stored data if and only if the
  file is there, parses, carries a timestamp, and the age is at most the lifetime;
  absent in every other case.
\<close>

definition spec_readCache :: "runtime \<Rightarrow> rat \<Rightarrow> int \<Rightarrow> world \<Rightarrow> jv" where
  "spec_readCache rt cache_min now w =
     (case cacheFile w of
        None \<Rightarrow> Null
      | Some s \<Rightarrow>
        (case JSON_parse rt s of
           Inl e \<Rightarrow> Null
         | Inr obj \<Rightarrow>
           if nullish (member obj ''timestamp'') then Null
           else (case ToNumber rt (member obj ''timestamp'') of
                   Inl e \<Rightarrow> Null
                 | Inr t \<Rightarrow>
                   if num_le (num_over (num_minus (Fin (of_int now)) t) 60000) cache_min
                   then member obj ''data'' else Null)))"

text \<open>A record whose timestamp is an empty object, not a number.\<close>

definition undated_record :: jv where
  "undated_record = Obj [(''timestamp'', Obj []), (''data'', Str ''payload'')]"

text \<open>A request that times out, and a world with a cache file.\<close>

definition failing_reply :: reply where
  "failing_reply = \<lparr>loadJSON = Inl (NetworkError ''timed out''), response = Null\<rparr>"

definition world_with_cache :: world where
  "world_with_cache = \<lparr>cacheFile = Some ''document'', writable = True\<rparr>"

section \<open>Properties\<close>

subsection \<open>The safe getter\<close>

lemma g_step_own:
  "g_step v k = Inr (case own_child v k of None \<Rightarrow> Null | Some c \<Rightarrow> if nullish c then Null else c)"
  by (cases v) (auto simp: g_step_def split: option.splits elim: nullish.elims)

lemma reduce_Null: "reduce g_step Null ks = Inr Null"
  by (induction ks) (simp_all add: g_step_def)

lemma reduce_value_at:
  "reduce g_step v ks =
     Inr (case value_at own_child v ks of None \<Rightarrow> (if ks = [] then v else Null) | Some r \<Rightarrow> r)"
proof (induction ks arbitrary: v)
  case Nil
  show ?case by simp
next
  case (Cons k ks)
  note st = g_step_own [of v k]
  show ?case
  proof (cases "own_child v k")
    case None
    with st show ?thesis by (simp add: reduce_Null)
  next
    case (Some c)
    show ?thesis
    proof (cases "nullish c")
      case True
      with Some st show ?thesis by (simp add: reduce_Null)
    next
      case False
      have "value_at own_child c ks = None \<Longrightarrow> ks = [] \<Longrightarrow> False"
        using False by simp
      with Some False st Cons.IH [of c] show ?thesis
        by (auto split: option.splits)
    qed
  qed
qed

lemma value_at_not_nullish: "value_at child v ks = Some r \<Longrightarrow> \<not> nullish r"
  by (induction ks arbitrary: v) (auto split: option.splits if_splits)

lemma split_dot_not_Nil: "split_dot p \<noteq> []"
  by (induction p) (auto split: list.splits)

lemma g_value_at:
  "g obj path fallback =
     Inr (case value_at own_child obj (split_dot path) of
            None \<Rightarrow> (if fallback = Undefined then Null else fallback)
          | Some v \<Rightarrow> v)"
proof (cases "value_at own_child obj (split_dot path)")
  case None
  then show ?thesis
    by (cases "nullish obj") (simp_all add: g_def reduce_value_at split_dot_not_Nil)
next
  case (Some r)
  then show ?thesis
    using value_at_not_nullish [OF Some]
    by (simp add: g_def reduce_value_at)
qed

lemma index_of_key_alpha:
  "k \<noteq> [] \<Longrightarrow> digit_of (hd k) = None \<Longrightarrow> index_of_key k = None"
  by (cases k) (auto simp: index_of_key_def)

lemma getter_keys_plain:
  "\<forall>k\<in>set getter_keys. k \<noteq> ''length'' \<and> index_of_key k = None"
  by (simp add: getter_keys_def index_of_key_alpha digit_of_def)

lemma own_child_json_child:
  "k \<noteq> ''length'' \<Longrightarrow> index_of_key k = None \<Longrightarrow> own_child v k = json_child v k"
  by (cases v) simp_all

lemma value_at_plain_keys:
  "\<forall>k\<in>set ks. k \<noteq> ''length'' \<and> index_of_key k = None \<Longrightarrow>
   value_at own_child v ks = value_at json_child v ks"
proof (induction ks arbitrary: v)
  case Nil
  show ?case by simp
next
  case (Cons k ks)
  then have "own_child v k = json_child v k"
    by (simp add: own_child_json_child)
  with Cons show ?case
    by (simp split: option.splits)
qed

lemma g_getter_keys:
  assumes "\<forall>k\<in>set (split_dot path). k \<in> set getter_keys"
  shows "g obj path fallback = Inr (spec_g obj path fallback)"
proof -
  have "\<forall>k\<in>set (split_dot path). k \<noteq> ''length'' \<and> index_of_key k = None"
    using assms getter_keys_plain by blast
  then have "value_at own_child obj (split_dot path) = value_at json_child obj (split_dot path)"
    by (rule value_at_plain_keys)
  then show ?thesis
    by (simp add: g_value_at spec_g_def)
qed

text \<open>
  C9, amended. For every value and every dotted path whose keys are names the scripts
  read (\<open>degrees\<close>, \<open>unit\<close>, \<open>speed\<close>, \<open>value\<close>, \<open>wind\<close> and the others of \<open>getter_keys\<close>),
  the getter does not raise; it returns the value at the path when every key of the
  path, the last one too, is a member with a value that is neither \<open>null\<close> nor
  \<open>undefined\<close>, and otherwise the fallback, which is \<open>null\<close> when none is given. Paths
  with another key, such as \<open>length\<close>, an index or the name of a member that values
  inherit, are left open.
\<close>

theorem g_on_getter_keys:
  "(\<forall>k\<in>set (split_dot path). k \<in> set getter_keys)
     \<longrightarrow> g obj path fallback = Inr (spec_g obj path fallback)"
  using g_getter_keys by blast

theorem g_on_getter_keys_witness:
  "g (Obj [(''wind'', Obj [(''speed'', Obj [(''value'', Num (Fin 8))])])]) ''wind.speed.value'' Undefined
     = Inr (Num (Fin 8))
   \<and> g (Obj [(''wind'', Null)]) ''wind.speed.value'' (Str ''none'') = Inr (Str ''none'')
   \<and> g (Str ''abc'') ''unit'' Undefined = Inr Null"
  using g_on_getter_keys [of "''wind.speed.value''"
          "Obj [(''wind'', Obj [(''speed'', Obj [(''value'', Num (Fin 8))])])]" Undefined]
        g_on_getter_keys [of "''wind.speed.value''" "Obj [(''wind'', Null)]" "Str ''none''"]
        g_on_getter_keys [of "''unit''" "Str ''abc''" Undefined]
  by (simp add: getter_keys_def spec_g_def)

text \<open>
  C9 as it is stated fails on the path \<open>name.length\<close> into \<open>{name: "abc"}\<close>: the JSON
  tree has no key below the string, so the stated result is the fallback, but the getter
  returns the number 3.
\<close>

theorem g_length_counterexample:
  "g (Obj [(''name'', Str ''abc'')]) ''name.length'' Null
     \<noteq> Inr (spec_g (Obj [(''name'', Str ''abc'')]) ''name.length'' Null)"
  by (simp add: g_def g_step_def spec_g_def nat_num_def)

subsection \<open>Condition text\<close>

lemma index_of_key_description [simp]: "index_of_key ''description'' = None"
  by (simp add: index_of_key_def digit_of_def)

lemma index_of_key_text [simp]: "index_of_key ''text'' = None"
  by (simp add: index_of_key_def digit_of_def)

lemma index_of_key_type [simp]: "index_of_key ''type'' = None"
  by (simp add: index_of_key_def digit_of_def)

lemma getProp_member:
  "truthy v \<Longrightarrow> k \<noteq> ''length'' \<Longrightarrow> index_of_key k = None \<Longrightarrow> getProp v k = Inr (member v k)"
  by (cases v) (simp_all split: option.splits)

lemma member_falsy: "\<not> truthy v \<Longrightarrow> member v k = Undefined"
  by (cases v) simp_all

lemma case_string:
  "case_jv B B (\<lambda>_. B) (\<lambda>_. B) A (\<lambda>_. B) (\<lambda>_. B) v =
     (case str_of v of None \<Rightarrow> B | Some s \<Rightarrow> A s)"
  by (cases v) simp_all

lemma andThen_Inr [simp]: "andThen (Inr v) f = f v"
  by (simp add: andThen_def)

lemma andThen_Inl [simp]: "andThen (Inl e) f = Inl e"
  by (simp add: andThen_def)

lemma text_step:
  "(if truthy desc then getProp desc ''text'' else Inr Undefined) = Inr (member desc ''text'')"
  by (simp add: getProp_member member_falsy)

lemma normalizeConditionText_eq:
  "normalizeConditionText raw =
     Inr (if raw = Str [] then None else spec_normalizeConditionText raw)"
proof (cases "truthy raw")
  case False
  then show ?thesis
    by (cases raw) (simp_all add: normalizeConditionText_def spec_normalizeConditionText_def)
next
  case True
  have d: "getProp raw ''description'' = Inr (member raw ''description'')"
    and t: "getProp raw ''type'' = Inr (member raw ''type'')"
    using True by (simp_all add: getProp_member)
  have ne: "raw \<noteq> Str []"
    using True by auto
  show ?thesis
    unfolding normalizeConditionText_def spec_normalizeConditionText_def case_string d t text_step
    using True ne
    by (simp split: option.splits)
qed

text \<open>
  C3, amended. For every raw condition value \<open>normalizeConditionText\<close> returns a result
  and never raises. The empty string yields absent, as every other value that counts as
  false does. For every other value the ordered rules decide: a string is returned as it
  is; else a string \<open>description\<close> is returned; else the string \<open>text\<close> of a \<open>description\<close>
  object; else a string \<open>type\<close>; else the result is absent.
\<close>

theorem normalizeConditionText_rules:
  "normalizeConditionText raw =
     Inr (if raw = Str [] then None else spec_normalizeConditionText raw)"
  by (rule normalizeConditionText_eq)

theorem normalizeConditionText_rules_witness:
  "normalizeConditionText (Str ''Sunny'') = Inr (Some ''Sunny'')
   \<and> normalizeConditionText (Obj [(''description'', Obj [(''text'', Str ''Cloudy'')])]) = Inr (Some ''Cloudy'')
   \<and> normalizeConditionText (Obj [(''type'', Str ''RAIN'')]) = Inr (Some ''RAIN'')
   \<and> normalizeConditionText (Obj []) = Inr None"
  using normalizeConditionText_rules [of "Str ''Sunny''"]
        normalizeConditionText_rules [of "Obj [(''description'', Obj [(''text'', Str ''Cloudy'')])]"]
        normalizeConditionText_rules [of "Obj [(''type'', Str ''RAIN'')]"]
        normalizeConditionText_rules [of "Obj []"]
  by (simp add: spec_normalizeConditionText_def)

text \<open>
  C3 as it is stated fails on the empty string: the first rule returns a string input
  as it is, but the function returns absent.
\<close>

theorem normalizeConditionText_empty_string_counterexample:
  "normalizeConditionText (Str []) \<noteq> Inr (spec_normalizeConditionText (Str []))"
  by (simp add: normalizeConditionText_def spec_normalizeConditionText_def)

subsection \<open>Condition to symbol\<close>

lemma getConditionType_eq: "getConditionType rt raw = type_label rt raw"
proof (cases "truthy raw")
  case False
  then show ?thesis
    by (simp add: getConditionType_def type_label_def member_falsy)
next
  case True
  then have "getProp raw ''type'' = Inr (member raw ''type'')"
    by (simp add: getProp_member)
  with True show ?thesis
    by (simp add: getConditionType_def type_label_def)
qed

lemma normalizeConditionText_label:
  "andThen (normalizeConditionText raw) (\<lambda>norm. f (case norm of None \<Rightarrow> [] | Some s \<Rightarrow> s))
     = f (text_label raw)"
  by (simp add: normalizeConditionText_eq text_label_def)

lemma pickSymbol_daily_eq:
  "pickSymbol_daily rt raw isDaytime =
     andThen (type_label rt raw) (\<lambda>type.
       Inr (case typed_rules (toUpperCase rt type) (truthy isDaytime) of
              Some name \<Rightarrow> name
            | None \<Rightarrow>
              (case text_rules (toLowerCase rt (text_label raw)) (truthy isDaytime) of
                 Some name \<Rightarrow> name
               | None \<Rightarrow> clear_sky isDaytime)))"
  by (cases "type_label rt raw")
     (simp_all add: pickSymbol_daily_def getConditionType_eq normalizeConditionText_eq
        text_label_def clear_sky_def Let_def split: option.splits)

text \<open>
  C4, amended. In the forecast script \<open>pickSymbol\<close> first makes the uppercased \<open>type\<close>
  of the condition, the empty string when there is none; it raises only when a \<open>type\<close>
  that is no string cannot be converted to one. When a rule on the type matches, that
  rule alone decides, whatever the text is. The rules on the text are consulted
  whenever no rule on the type matches: when the \<open>type\<close> is absent or empty, and also
  when it is a type no rule knows. Then the rules on the text alone decide, and the
  clear-sky symbol is left when they do not match either.
\<close>

theorem pickSymbol_daily_typed_first:
  "pickSymbol_daily rt raw isDaytime =
     andThen (type_label rt raw) (\<lambda>type.
       Inr (case typed_rules (toUpperCase rt type) (truthy isDaytime) of
              Some name \<Rightarrow> name
            | None \<Rightarrow>
              (case text_rules (toLowerCase rt (text_label raw)) (truthy isDaytime) of
                 Some name \<Rightarrow> name
               | None \<Rightarrow> clear_sky isDaytime)))"
  by (rule pickSymbol_daily_eq)

lemma case_simps:
  "list_all is_ascii s \<Longrightarrow> toUpperCase rt s = map upper_char s"
  "list_all is_ascii s \<Longrightarrow> toLowerCase rt s = map lower_char s"
  by (simp_all add: toUpperCase_def toLowerCase_def)

theorem pickSymbol_daily_typed_first_witness:
  "pickSymbol_daily plain_runtime
      (Obj [(''type'', Str ''RAIN''), (''description'', Obj [(''text'', Str ''Heavy snow'')])])
      (Bool True) = Inr ''cloud.rain.fill''
   \<and> pickSymbol_daily plain_runtime
      (Obj [(''description'', Obj [(''text'', Str ''Heavy snow'')])])
      (Bool True) = Inr ''cloud.snow.fill''"
  using pickSymbol_daily_typed_first [of plain_runtime
          "Obj [(''type'', Str ''RAIN''), (''description'', Obj [(''text'', Str ''Heavy snow'')])]"
          "Bool True"]
        pickSymbol_daily_typed_first [of plain_runtime
          "Obj [(''description'', Obj [(''text'', Str ''Heavy snow'')])]" "Bool True"]
  by (simp add: type_label_def text_label_def spec_normalizeConditionText_def typed_rules_def
        text_rules_def case_simps is_ascii_def upper_char_def lower_char_def)

text \<open>
  C4 as it is stated fails on \<open>{type: "WINDY", description: {text: "Light rain"}}\<close>: the
  condition carries a type, no rule on the type matches, and the symbol is the one of
  the rule on the text, not the clear sky.
\<close>

theorem pickSymbol_daily_unknown_type_counterexample:
  "pickSymbol_daily plain_runtime
      (Obj [(''type'', Str ''WINDY''), (''description'', Obj [(''text'', Str ''Light rain'')])])
      (Bool True)
   \<noteq> spec_pickSymbol_daily plain_runtime
      (Obj [(''type'', Str ''WINDY''), (''description'', Obj [(''text'', Str ''Light rain'')])])
      (Bool True)"
  by (simp add: pickSymbol_daily_eq spec_pickSymbol_daily_def type_label_def text_label_def
        spec_normalizeConditionText_def typed_rules_def
        text_rules_def case_simps is_ascii_def upper_char_def lower_char_def clear_sky_def)










subsection \<open>Temperature and colours\<close>

lemma value_at_key:
  "k \<noteq> ''length'' \<Longrightarrow> index_of_key k = None \<Longrightarrow>
   value_at own_child v (k # ks) =
     (if nullish (member v k) then None else value_at own_child (member v k) ks)"
  by (cases v) (auto split: option.splits)

lemma g_key:
  assumes "split_dot k = [k]" and "k \<noteq> ''length''" and "index_of_key k = None"
  shows "g v k fallback =
     Inr (if nullish (member v k) then (if fallback = Undefined then Null else fallback)
          else member v k)"
  using assms by (simp add: g_value_at value_at_key del: value_at.simps(2))

lemma g_key2:
  assumes "split_dot p = [k1, k2]" and "k1 \<noteq> ''length''" and "index_of_key k1 = None"
    and "k2 \<noteq> ''length''" and "index_of_key k2 = None"
  shows "g v p fallback =
     Inr (if nullish (member (member v k1) k2)
          then (if fallback = Undefined then Null else fallback)
          else member (member v k1) k2)"
proof -
  have "nullish (member v k1) \<Longrightarrow> member (member v k1) k2 = Undefined"
    by (cases "member v k1") simp_all
  with assms show ?thesis
    by (auto simp add: g_value_at value_at_key simp del: value_at.simps(2))
qed

lemma g_degrees:
  "g v ''degrees'' Undefined =
     Inr (if nullish (member v ''degrees'') then Null else member v ''degrees'')"
  by (simp add: g_key index_of_key_alpha digit_of_def)

lemma g_unit:
  "g v ''unit'' Undefined =
     Inr (if nullish (member v ''unit'') then Null else member v ''unit'')"
  by (simp add: g_key index_of_key_alpha digit_of_def)

lemma guarded_eq_Str: "((if nullish u then Null else u) = Str s) = (u = Str s)"
  by (cases u) simp_all

lemma parseTempC_eq:
  "parseTempC rt tempObj =
     (if nullish (member tempObj ''degrees'') then Inr None
      else andThen (ToNumber rt (member tempObj ''degrees'')) (\<lambda>n.
        if member tempObj ''unit'' = Str ''FAHRENHEIT''
        then Inr (Some (Math_round
               (round_double (num_over
                  (round_double (num_times
                     (round_double (num_minus n (Fin 32))) 5)) 9))))
        else Inr (Some (Math_round n))))"
  by (simp add: parseTempC_def g_degrees g_unit guarded_eq_Str del: Math_round.simps
        round_double.simps num_minus.simps num_times.simps num_over.simps)

lemma parseTempC_absent:
  "nullish (member tempObj ''degrees'') \<Longrightarrow> parseTempC rt tempObj = Inr None"
  by (simp add: parseTempC_eq)

lemma parseTempC_fahrenheit:
  "member tempObj ''degrees'' = Num v \<Longrightarrow> member tempObj ''unit'' = Str ''FAHRENHEIT'' \<Longrightarrow>
   parseTempC rt tempObj =
     Inr (Some (Math_round
       (round_double (num_over
          (round_double (num_times
             (round_double (num_minus v (Fin 32))) 5)) 9))))"
  by (simp add: parseTempC_eq del: Math_round.simps round_double.simps
        num_minus.simps num_times.simps num_over.simps)

lemma parseTempC_other_unit:
  "member tempObj ''degrees'' = Num v \<Longrightarrow> member tempObj ''unit'' \<noteq> Str ''FAHRENHEIT'' \<Longrightarrow>
   parseTempC rt tempObj = Inr (Some (Math_round v))"
  by (simp add: parseTempC_eq del: Math_round.simps)

lemma colors_by_temp_int:
  "colors_by_temp (Some (Fin (of_int c))) =
     (if c < 10 then cold else if c \<le> 23 then mild else hot)"
  by (simp add: colors_by_temp_def)

lemma schemes_distinct: "distinct [cold, mild, hot, night]"
  by (simp add: cold_def mild_def hot_def night_def)

lemma colors_never_night: "colors_by_temp tempC \<noteq> night"
proof -
  have "colors_by_temp tempC \<in> {cold, mild, hot}"
    by (simp add: colors_by_temp_def split: option.splits)
  then show ?thesis
    using schemes_distinct by auto
qed

lemma color_scheme_clauses:
  "(nullish (member tempObj ''degrees'') \<longrightarrow> parseTempC rt tempObj = Inr None)
   \<and> (member tempObj ''degrees'' = Num v \<and> member tempObj ''unit'' = Str ''FAHRENHEIT''
        \<longrightarrow> parseTempC rt tempObj =
              Inr (Some (Math_round
                (round_double (num_over
                   (round_double (num_times
                      (round_double (num_minus v (Fin 32))) 5)) 9)))))
   \<and> (member tempObj ''degrees'' = Num v \<and> member tempObj ''unit'' \<noteq> Str ''FAHRENHEIT''
        \<longrightarrow> parseTempC rt tempObj = Inr (Some (Math_round v)))
   \<and> Math_round (Fin x) = Fin (of_int \<lfloor>x + 1 / 2\<rfloor>)
   \<and> colors_by_temp None = cold
   \<and> (c < 10 \<longrightarrow> colors_by_temp (Some (Fin (of_int c))) = cold)
   \<and> (10 \<le> c \<and> c \<le> 23 \<longrightarrow> colors_by_temp (Some (Fin (of_int c))) = mild)
   \<and> (24 \<le> c \<longrightarrow> colors_by_temp (Some (Fin (of_int c))) = hot)
   \<and> colors (gradientFor_daily tempC) = colors_by_temp tempC
   \<and> (truthy isDay \<longrightarrow> colors (gradientFor tempC isDay) = colors_by_temp tempC)
   \<and> (\<not> truthy isDay \<longrightarrow> colors (gradientFor tempC isDay) = night)
   \<and> colors_by_temp tempC \<noteq> night
   \<and> distinct [cold, mild, hot, night]"
proof -
  have "colors_by_temp None = cold"
    by (simp add: colors_by_temp_def)
  then show ?thesis
    using schemes_distinct colors_never_night [of tempC]
      parseTempC_absent [of tempObj rt] parseTempC_fahrenheit [of tempObj v rt]
      parseTempC_other_unit [of tempObj v rt]
    by (simp add: colors_by_temp_int gradientFor_def gradientFor_daily_def
          del: round_double.simps num_minus.simps num_times.simps num_over.simps)
qed

text \<open>
  C7, amended. The colours are chosen by the temperature in degrees Celsius.
  \<open>parseTempC\<close> gives absent for absent degrees. For degrees that are a number it gives,
  for the unit \<open>FAHRENHEIT\<close>, the rounded \<open>(v - 32) * 5 / 9\<close> as the doubles compute it,
  the difference, the product and the quotient each rounded to the nearest double
  before \<open>Math.round\<close> takes the nearest integer, a tie going up; for every other unit
  the rounded \<open>v\<close>. An absent temperature and a whole number below 10 take the cold
  colours, 10 to 23 the mild ones, 24 and more the hot ones. In the current-conditions
  script a day flag that counts as false puts the night colours in their place,
  whatever the temperature; the forecast script never takes them.
\<close>

theorem color_scheme_by_celsius:
  "(nullish (member tempObj ''degrees'') \<longrightarrow> parseTempC rt tempObj = Inr None)
   \<and> (member tempObj ''degrees'' = Num v \<and> member tempObj ''unit'' = Str ''FAHRENHEIT''
        \<longrightarrow> parseTempC rt tempObj =
              Inr (Some (Math_round
                (round_double (num_over
                   (round_double (num_times
                      (round_double (num_minus v (Fin 32))) 5)) 9)))))
   \<and> (member tempObj ''degrees'' = Num v \<and> member tempObj ''unit'' \<noteq> Str ''FAHRENHEIT''
        \<longrightarrow> parseTempC rt tempObj = Inr (Some (Math_round v)))
   \<and> Math_round (Fin x) = Fin (of_int \<lfloor>x + 1 / 2\<rfloor>)
   \<and> colors_by_temp None = cold
   \<and> (c < 10 \<longrightarrow> colors_by_temp (Some (Fin (of_int c))) = cold)
   \<and> (10 \<le> c \<and> c \<le> 23 \<longrightarrow> colors_by_temp (Some (Fin (of_int c))) = mild)
   \<and> (24 \<le> c \<longrightarrow> colors_by_temp (Some (Fin (of_int c))) = hot)
   \<and> colors (gradientFor_daily tempC) = colors_by_temp tempC
   \<and> (truthy isDay \<longrightarrow> colors (gradientFor tempC isDay) = colors_by_temp tempC)
   \<and> (\<not> truthy isDay \<longrightarrow> colors (gradientFor tempC isDay) = night)
   \<and> colors_by_temp tempC \<noteq> night
   \<and> distinct [cold, mild, hot, night]"
  by (rule color_scheme_clauses)

lemma double_74_3: "double (743 / 10) = Fin fahrenheit_74_3"
  by code_simp

lemma double_98_6: "double (493 / 5) = Fin fahrenheit_98_6"
  by code_simp

lemma minus_74_3:
  "round_double (num_minus (Fin fahrenheit_74_3) (Fin 32)) = Fin (2976597878715187 / 70368744177664)"
  by code_simp

lemma times_74_3:
  "round_double (num_times (Fin (2976597878715187 / 70368744177664)) 5) = Fin (423 / 2)"
  by code_simp

lemma over_74_3: "round_double (num_over (Fin (423 / 2)) 9) = Fin (47 / 2)"
  by code_simp

lemma round_74_3: "Math_round (Fin (47 / 2)) = Fin 24"
  by code_simp

lemma minus_98_6:
  "round_double (num_minus (Fin fahrenheit_98_6) (Fin 32)) = Fin (2343279181116211 / 35184372088832)"
  by code_simp

lemma times_98_6:
  "round_double (num_times (Fin (2343279181116211 / 35184372088832)) 5) = Fin 333"
  by code_simp

lemma over_98_6: "round_double (num_over (Fin 333) 9) = Fin 37"
  by code_simp

lemma round_98_6: "Math_round (Fin 37) = Fin 37"
  by code_simp

lemma round_20: "Math_round (Fin 20) = Fin 20"
  by code_simp

lemma spec_celsius_74_3: "spec_celsius fahrenheit_74_3 = 23"
  by code_simp

lemma member_degrees_unit:
  "member (Obj [(''degrees'', d), (''unit'', u)]) ''degrees'' = d"
  "member (Obj [(''degrees'', d), (''unit'', u)]) ''unit'' = u"
  by simp_all

theorem color_scheme_by_celsius_witness:
  "parseTempC plain_runtime
      (Obj [(''degrees'', Num (Fin fahrenheit_98_6)), (''unit'', Str ''FAHRENHEIT'')])
     = Inr (Some (Fin 37))
   \<and> parseTempC plain_runtime
      (Obj [(''degrees'', Num (Fin fahrenheit_74_3)), (''unit'', Str ''FAHRENHEIT'')])
     = Inr (Some (Fin 24))
   \<and> parseTempC plain_runtime (Obj [(''degrees'', Num (Fin 20)), (''unit'', Str ''CELSIUS'')])
     = Inr (Some (Fin 20))
   \<and> parseTempC plain_runtime (Obj [(''unit'', Str ''CELSIUS'')]) = Inr None
   \<and> colors_by_temp (Some (Fin 5)) = cold
   \<and> colors_by_temp (Some (Fin 10)) = mild
   \<and> colors_by_temp (Some (Fin 15)) = mild
   \<and> colors_by_temp (Some (Fin 24)) = hot
   \<and> colors_by_temp (Some (Fin 30)) = hot
   \<and> colors (gradientFor (Some (Fin 30)) (Bool True)) = hot
   \<and> colors (gradientFor (Some (Fin 30)) (Bool False)) = night"
proof -
  let ?f98 = "Obj [(''degrees'', Num (Fin fahrenheit_98_6)), (''unit'', Str ''FAHRENHEIT'')]"
  let ?f74 = "Obj [(''degrees'', Num (Fin fahrenheit_74_3)), (''unit'', Str ''FAHRENHEIT'')]"
  let ?c20 = "Obj [(''degrees'', Num (Fin 20)), (''unit'', Str ''CELSIUS'')]"
  have 1: "parseTempC plain_runtime ?f98 = Inr (Some (Fin 37))"
    using color_scheme_by_celsius [of ?f98 plain_runtime "Fin fahrenheit_98_6" 0 5 "Some (Fin 30)" "Bool True",
            THEN conjunct2, THEN conjunct1]
    unfolding member_degrees_unit minus_98_6 times_98_6 over_98_6 round_98_6
    by simp
  have 2: "parseTempC plain_runtime ?f74 = Inr (Some (Fin 24))"
    using color_scheme_by_celsius [of ?f74 plain_runtime "Fin fahrenheit_74_3" 0 5 "Some (Fin 30)" "Bool True",
            THEN conjunct2, THEN conjunct1]
    unfolding member_degrees_unit minus_74_3 times_74_3 over_74_3 round_74_3
    by simp
  have 3: "parseTempC plain_runtime ?c20 = Inr (Some (Fin 20))"
    using color_scheme_by_celsius [of ?c20 plain_runtime "Fin 20" 20 10 "Some (Fin 30)" "Bool False",
            THEN conjunct2, THEN conjunct2, THEN conjunct1]
    by (simp add: round_20 del: Math_round.simps)
  have 4: "parseTempC plain_runtime (Obj [(''unit'', Str ''CELSIUS'')]) = Inr None"
    using color_scheme_by_celsius [of "Obj [(''unit'', Str ''CELSIUS'')]" plain_runtime NaN 0 15,
            THEN conjunct1]
    by simp
  have 5: "colors_by_temp (Some (Fin 5)) = cold"
    "colors_by_temp (Some (Fin 10)) = mild"
    "colors_by_temp (Some (Fin 15)) = mild"
    "colors_by_temp (Some (Fin 24)) = hot"
    "colors_by_temp (Some (Fin 30)) = hot"
    using color_scheme_by_celsius [of Null plain_runtime NaN 0 5]
      color_scheme_by_celsius [of Null plain_runtime NaN 0 10]
      color_scheme_by_celsius [of Null plain_runtime NaN 0 15]
      color_scheme_by_celsius [of Null plain_runtime NaN 0 24]
      color_scheme_by_celsius [of Null plain_runtime NaN 0 30]
    by simp_all
  have 6: "colors (gradientFor (Some (Fin 30)) (Bool True)) = hot"
    "colors (gradientFor (Some (Fin 30)) (Bool False)) = night"
    using color_scheme_by_celsius [of Null plain_runtime NaN 0 30 "Some (Fin 30)" "Bool True"]
      color_scheme_by_celsius [of Null plain_runtime NaN 0 30 "Some (Fin 30)" "Bool False"]
    by simp_all
  from 1 2 3 4 5 6 show ?thesis
    by simp
qed

text \<open>
  C7 as it is stated fails on the double next below \<open>74.3\<close>, which is what the text
  \<open>74.3\<close> reads as: on that number the formula \<open>(v - 32) * 5 / 9\<close> gives a value below
  \<open>23.5\<close>, which rounds to 23 and takes the mild colours; the script's doubles reach
  \<open>23.5\<close> exactly, \<open>parseTempC\<close> returns 24 and the colours are the hot ones.
\<close>

theorem parseTempC_double_rounding_counterexample:
  "parseTempC plain_runtime
      (Obj [(''degrees'', Num (Fin fahrenheit_74_3)), (''unit'', Str ''FAHRENHEIT'')])
     \<noteq> Inr (Some (Fin (of_int (spec_celsius fahrenheit_74_3))))
   \<and> parseTempC plain_runtime
      (Obj [(''degrees'', Num (Fin fahrenheit_74_3)), (''unit'', Str ''FAHRENHEIT'')])
     = Inr (Some (Fin 24))
   \<and> spec_celsius fahrenheit_74_3 = 23
   \<and> colors_by_temp (Some (Fin 24)) = hot
   \<and> colors_by_temp (Some (Fin (of_int (spec_celsius fahrenheit_74_3)))) = mild
   \<and> double (743 / 10) = Fin fahrenheit_74_3"
proof -
  have "parseTempC plain_runtime
      (Obj [(''degrees'', Num (Fin fahrenheit_74_3)), (''unit'', Str ''FAHRENHEIT'')])
     = Inr (Some (Fin 24))"
    using parseTempC_fahrenheit [of "Obj [(''degrees'', Num (Fin fahrenheit_74_3)), (''unit'', Str ''FAHRENHEIT'')]"
            "Fin fahrenheit_74_3" plain_runtime]
    unfolding member_degrees_unit minus_74_3 times_74_3 over_74_3 round_74_3
    by simp
  moreover have "colors_by_temp (Some (Fin 24)) = hot" "colors_by_temp (Some (Fin 23)) = mild"
    using colors_by_temp_int [of 24] colors_by_temp_int [of 23] by simp_all
  ultimately show ?thesis
    by (simp add: spec_celsius_74_3 double_74_3)
qed

subsection \<open>The forecast widget without days\<close>

lemma g_forecastDays:
  "g v ''forecastDays'' (Arr []) =
     Inr (if nullish (member v ''forecastDays'') then Arr [] else member v ''forecastDays'')"
  by (simp add: g_key index_of_key_alpha digit_of_def)

lemma buildWidget_daily_placeholder:
  assumes "\<forall>x xs. member forecast ''forecastDays'' \<noteq> Arr (x # xs)"
  shows "buildWidget_daily rt now forecast placeName = Inr no_forecast"
proof (cases "nullish (member forecast ''forecastDays'')")
  case True
  then show ?thesis
    by (simp add: buildWidget_daily_def g_forecastDays)
next
  case False
  with assms show ?thesis
    by (simp add: buildWidget_daily_def g_forecastDays split: jv.splits list.splits)
qed

text \<open>
  C10. In the forecast script, when the \<open>forecastDays\<close> of the payload is absent, is no
  array or is the empty array, \<open>buildWidget\<close> returns without raising, and what it
  returns is the one widget that says \<open>No forecast data\<close>: nothing else of the payload,
  no field of a day, has a part in it.
\<close>

theorem buildWidget_daily_no_forecast:
  "(\<forall>x xs. member forecast ''forecastDays'' \<noteq> Arr (x # xs))
     \<longrightarrow> buildWidget_daily rt now forecast placeName = Inr no_forecast"
  using buildWidget_daily_placeholder by blast

theorem buildWidget_daily_no_forecast_witness:
  "buildWidget_daily plain_runtime 0 (Obj []) ''Krakow'' = Inr no_forecast
   \<and> buildWidget_daily plain_runtime 0 (Obj [(''forecastDays'', Arr [])]) ''Krakow''
       = Inr no_forecast
   \<and> buildWidget_daily plain_runtime 0 (Obj [(''forecastDays'', Str ''none'')]) ''Krakow''
       = Inr no_forecast
   \<and> buildWidget_daily plain_runtime 0 Null ''Krakow'' = Inr no_forecast
   \<and> elements no_forecast = [Text ''No forecast data'']"
  using buildWidget_daily_no_forecast [of "Obj []" plain_runtime 0 "''Krakow''"]
        buildWidget_daily_no_forecast [of "Obj [(''forecastDays'', Arr [])]" plain_runtime 0 "''Krakow''"]
        buildWidget_daily_no_forecast [of "Obj [(''forecastDays'', Str ''none'')]" plain_runtime 0 "''Krakow''"]
        buildWidget_daily_no_forecast [of Null plain_runtime 0 "''Krakow''"]
  by (simp add: no_forecast_def)

subsection \<open>Wind\<close>

lemma g_speed_value:
  "g v ''speed.value'' Undefined =
     Inr (if nullish (member (member v ''speed'') ''value'') then Null
          else member (member v ''speed'') ''value'')"
  by (simp add: g_key2 [where ?k1.0="''speed''" and ?k2.0="''value''"] index_of_key_alpha digit_of_def)

lemma g_speed_unit:
  "g v ''speed.unit'' Undefined =
     Inr (if nullish (member (member v ''speed'') ''unit'') then Null
          else member (member v ''speed'') ''unit'')"
  by (simp add: g_key2 [where ?k1.0="''speed''" and ?k2.0="''unit''"] index_of_key_alpha digit_of_def)

lemma g_direction_degrees:
  "g v ''direction.degrees'' Undefined =
     Inr (if nullish (member (member v ''direction'') ''degrees'') then Null
          else member (member v ''direction'') ''degrees'')"
  by (simp add: g_key2 [where ?k1.0="''direction''" and ?k2.0="''degrees''"] index_of_key_alpha digit_of_def)

lemma show_nat_digit: "n < 10 \<Longrightarrow> show_nat n = [digit_char n]"
  by (simp add: show_nat.simps)

lemma NumberToString_int:
  "\<bar>i\<bar> < 2 ^ 53 \<Longrightarrow> NumberToString rt (Fin (of_int i)) = show_int i"
proof -
  assume "\<bar>i\<bar> < 2 ^ 53"
  then have "\<bar>of_int i :: rat\<bar> < 2 ^ 53"
    by (metis of_int_abs of_int_less_iff of_int_numeral of_int_power)
  then show ?thesis
    by (simp add: NumberToString_def)
qed

lemma idx_335:
  "num_rem (Math_round (num_over (num_rem (Fin 335) 360) (45 / 2))) 16 = Fin 15"
  by code_simp

lemma idx_m20:
  "num_rem (Math_round (num_over (num_rem (Fin (- 20)) 360) (45 / 2))) 16 = Fin (- 1)"
  by code_simp

lemma round_84: "Math_round (Fin (42 / 5)) = Fin 8"
  by code_simp

lemma show_15: "show_int 15 = ''15''" by code_simp
lemma show_m1: "show_int (- 1) = ''-1''" by code_simp
lemma show_8: "show_int 8 = ''8''" by code_simp

lemma str_15: "NumberToString rt (Fin 15) = ''15''"
  using NumberToString_int [of 15 rt] by (simp add: show_15)

lemma str_m1: "NumberToString rt (Fin (- 1)) = ''-1''"
  using NumberToString_int [of "- 1" rt] by (simp add: show_m1)

lemma str_8: "NumberToString rt (Fin 8) = ''8''"
  using NumberToString_int [of 8 rt] by (simp add: show_8)

lemma dirs_15: "getProp (Arr (map Str dirs)) ''15'' = Inr (Str ''NNW'')"
  by code_simp

lemma dirs_m1: "getProp (Arr (map Str dirs)) ''-1'' = Inr Undefined"
  by code_simp

lemma dirs_NaN: "getProp (Arr (map Str dirs)) ''NaN'' = Inr Undefined"
  by code_simp

lemma degToDir_Fin:
  "degToDir rt (Num (Fin d)) =
     getProp (Arr (map Str dirs))
       (NumberToString rt
          (num_rem (Math_round (num_over (num_rem (Fin d) 360) (45 / 2))) 16))"
  by (simp add: degToDir_def del: num_rem.simps num_over.simps Math_round.simps)

lemma degToDir_335: "degToDir rt (Num (Fin 335)) = Inr (Str ''NNW'')"
  unfolding degToDir_Fin idx_335 str_15 by (rule dirs_15)

lemma degToDir_m20: "degToDir rt (Num (Fin (- 20))) = Inr Undefined"
  unfolding degToDir_Fin idx_m20 str_m1 by (rule dirs_m1)

lemma fmtWind_members:
  "fmtWind rt windObj =
     (let spdVal = member (member windObj ''speed'') ''value'';
          spdUnit = member (member windObj ''speed'') ''unit'';
          dirDeg = member (member windObj ''direction'') ''degrees''
      in if nullish spdVal then Inr em_dash
         else andThen (degToDir rt (if nullish dirDeg then Null else dirDeg)) (\<lambda>dirTxt.
              andThen (ToNumber rt spdVal) (\<lambda>n.
              andThen (if truthy dirTxt then ToString rt dirTxt else Inr []) (\<lambda>dir.
                Inr (NumberToString rt (Math_round n) @ '' '' @ unit_symbol spdUnit
                     @ (if truthy dirTxt then '' '' @ dir else []))))))"
  by (simp add: fmtWind_def g_speed_value g_speed_unit g_direction_degrees Let_def
        unit_symbol_def guarded_eq_Str del: Math_round.simps)

lemma fmtWind_335: "fmtWind rt wind_335 = Inr ''8 km/h NNW''"
  unfolding fmtWind_members
  by (simp add: wind_335_def degToDir_335 round_84 str_8 unit_symbol_def
        del: Math_round.simps)

lemma fmtWind_negative_degrees:
  "fmtWind rt wind_minus_20 = Inr ''8 km/h''"
  unfolding fmtWind_members
  by (simp add: wind_minus_20_def degToDir_m20 round_84 str_8 unit_symbol_def
        del: Math_round.simps)

lemma dirs_lookup_all:
  "\<forall>k\<in>set [0..<16]. getProp (Arr (map Str dirs)) (show_nat k) = Inr (Str (dirs ! k))"
  by code_simp

lemma dirs_lookup:
  "k < 16 \<Longrightarrow> getProp (Arr (map Str dirs)) (show_nat k) = Inr (Str (dirs ! k))"
  using dirs_lookup_all by simp

lemma dirs_nonempty_all: "\<forall>k\<in>set [0..<16]. dirs ! k \<noteq> []"
  by code_simp

lemma dirs_nonempty: "k < 16 \<Longrightarrow> dirs ! k \<noteq> []"
  using dirs_nonempty_all by simp

lemma compass_index_less: "compass_index d < 16"
  by (simp add: compass_index_def nat_less_iff)

lemma num_rem_int_16:
  assumes "0 \<le> n"
  shows "num_rem (Fin (of_int n)) 16 = Fin (of_int (n mod 16))"
proof -
  have "(0::rat) \<le> of_int n / 16"
    using assms by simp
  then have "trunc (of_int n / 16) = \<lfloor>(of_int n :: rat) / of_int 16\<rfloor>"
    by (simp add: trunc_def)
  also have "\<dots> = n div 16"
    by (rule floor_divide_of_int_eq)
  finally have t: "trunc (of_int n / 16) = n div 16" .
  have "n - 16 * (n div 16) = n mod 16"
    by (simp add: minus_mult_div_eq_mod)
  then have "(of_int n :: rat) - 16 * of_int (n div 16) = of_int (n mod 16)"
    by (metis of_int_diff of_int_mult of_int_numeral)
  with t show ?thesis
    by simp
qed

lemma degToDir_nonneg:
  assumes "0 \<le> d"
  shows "degToDir rt (Num (Fin d)) = Inr (Str (dirs ! compass_index d))"
proof -
  define r where "r = d - 360 * of_int \<lfloor>d / 360\<rfloor>"
  define n where "n = \<lfloor>r / (45 / 2) + 1 / 2\<rfloor>"
  have "trunc (d / 360) = \<lfloor>d / 360\<rfloor>"
    using assms by (simp add: trunc_def)
  then have rem: "num_rem (Fin d) 360 = Fin r"
    by (simp add: r_def)
  have "of_int \<lfloor>d / 360\<rfloor> \<le> d / 360"
    by (rule of_int_floor_le)
  then have "0 \<le> r"
    by (simp add: r_def field_simps)
  then have "0 \<le> r / (45 / 2) + 1 / 2"
    by simp
  then have n0: "0 \<le> n"
    by (simp add: n_def)
  have "num_rem (Math_round (num_over (num_rem (Fin d) 360) (45 / 2))) 16
          = num_rem (Fin (of_int n)) 16"
    by (simp add: rem n_def del: num_rem.simps)
  also have "\<dots> = Fin (of_int (n mod 16))"
    using n0 by (rule num_rem_int_16)
  finally have idx: "num_rem (Math_round (num_over (num_rem (Fin d) 360) (45 / 2))) 16
          = Fin (of_int (n mod 16))" .
  have m: "0 \<le> n mod 16" "n mod 16 < 16"
    by simp_all
  then have "\<bar>n mod 16\<bar> < 2 ^ 53"
    by simp
  then have "NumberToString rt (Fin (of_int (n mod 16))) = show_int (n mod 16)"
    by (rule NumberToString_int)
  also have "\<dots> = show_nat (nat (n mod 16))"
    using m by (simp add: show_int_def)
  finally have str: "NumberToString rt (Fin (of_int (n mod 16))) = show_nat (compass_index d)"
    by (simp add: compass_index_def n_def r_def)
  show ?thesis
    unfolding degToDir_Fin idx str
    by (rule dirs_lookup) (rule compass_index_less)
qed

lemma fmtWind_absent_speed:
  "nullish (member (member windObj ''speed'') ''value'') \<Longrightarrow> fmtWind rt windObj = Inr em_dash"
  by (simp add: fmtWind_members Let_def)

lemma degToDir_no_label:
  assumes "nullish deg \<or> ToNumber rt deg = Inr NaN \<or> ToNumber rt deg = Inr PInf
           \<or> ToNumber rt deg = Inr NInf"
  shows "degToDir rt (if nullish deg then Null else deg) = Inr (Str [])
         \<or> degToDir rt (if nullish deg then Null else deg) = Inr Undefined"
proof (cases "nullish deg")
  case True
  then show ?thesis
    by (simp add: degToDir_def)
next
  case False
  have nan: "NumberToString rt NaN = ''NaN''"
    by (simp add: NumberToString_def)
  from False assms consider "ToNumber rt deg = Inr NaN" | "ToNumber rt deg = Inr PInf"
    | "ToNumber rt deg = Inr NInf"
    by blast
  then show ?thesis
  proof cases
    case 1
    with False show ?thesis
      by (simp add: degToDir_def)
  next
    case 2
    with False show ?thesis
      by (simp add: degToDir_def nan dirs_NaN del: getProp.simps)
  next
    case 3
    with False show ?thesis
      by (simp add: degToDir_def nan dirs_NaN del: getProp.simps)
  qed
qed

lemma fmtWind_no_direction:
  assumes "member (member windObj ''speed'') ''value'' = Num (Fin v)"
    and "nullish (member (member windObj ''direction'') ''degrees'')
         \<or> ToNumber rt (member (member windObj ''direction'') ''degrees'') = Inr NaN
         \<or> ToNumber rt (member (member windObj ''direction'') ''degrees'') = Inr PInf
         \<or> ToNumber rt (member (member windObj ''direction'') ''degrees'') = Inr NInf"
  shows "fmtWind rt windObj =
     Inr (NumberToString rt (Fin (of_int \<lfloor>v + 1 / 2\<rfloor>)) @ '' ''
          @ unit_symbol (member (member windObj ''speed'') ''unit''))"
proof -
  let ?deg = "member (member windObj ''direction'') ''degrees''"
  have "degToDir rt (if nullish ?deg then Null else ?deg) = Inr (Str [])
        \<or> degToDir rt (if nullish ?deg then Null else ?deg) = Inr Undefined"
    using assms(2) by (rule degToDir_no_label)
  with assms(1) show ?thesis
    by (auto simp add: fmtWind_members Let_def)
qed

lemma fmtWind_nonneg_degrees:
  assumes "member (member windObj ''speed'') ''value'' = Num (Fin v)"
    and "member (member windObj ''direction'') ''degrees'' = Num (Fin d)" and "0 \<le> d"
  shows "fmtWind rt windObj =
     Inr (NumberToString rt (Fin (of_int \<lfloor>v + 1 / 2\<rfloor>)) @ '' ''
          @ unit_symbol (member (member windObj ''speed'') ''unit'')
          @ '' '' @ dirs ! compass_index d)"
  using assms dirs_nonempty [OF compass_index_less [of d]]
  by (simp add: fmtWind_members Let_def degToDir_nonneg del: degToDir_Fin)

lemma unit_symbol_cases:
  "unit_symbol (Str ''MILE_PER_HOUR'') = ''mph''
   \<and> unit_symbol (Str ''METER_PER_SECOND'') = ''m/s''
   \<and> (u \<noteq> Str ''MILE_PER_HOUR'' \<and> u \<noteq> Str ''METER_PER_SECOND'' \<longrightarrow> unit_symbol u = ''km/h'')"
  by (simp add: unit_symbol_def)

text \<open>
  C6, amended. For every wind object: an absent speed value gives the em-dash and nothing
  else. A speed that is a finite number is rounded to the nearest integer, a tie going
  up, and printed (in all its decimal digits when it is below \<open>2^53\<close>); then follow a
  blank and the unit symbol, \<open>mph\<close> for \<open>MILE_PER_HOUR\<close>, \<open>m/s\<close> for \<open>METER_PER_SECOND\<close>,
  \<open>km/h\<close> for everything else. When the degrees are absent, not a number or infinite,
  nothing more follows. When the degrees are a finite number that is not negative, a
  blank and the direction at the index \<open>round((d mod 360) / 22.5) mod 16\<close> of the
  sixteen follow. Negative degrees are left open.
\<close>

theorem fmtWind_rounds_and_points:
  "(nullish (member (member windObj ''speed'') ''value'') \<longrightarrow> fmtWind rt windObj = Inr em_dash)
   \<and> (member (member windObj ''speed'') ''value'' = Num (Fin v)
        \<and> (nullish (member (member windObj ''direction'') ''degrees'')
             \<or> ToNumber rt (member (member windObj ''direction'') ''degrees'') = Inr NaN
             \<or> ToNumber rt (member (member windObj ''direction'') ''degrees'') = Inr PInf
             \<or> ToNumber rt (member (member windObj ''direction'') ''degrees'') = Inr NInf)
        \<longrightarrow> fmtWind rt windObj =
              Inr (NumberToString rt (Fin (of_int \<lfloor>v + 1 / 2\<rfloor>)) @ '' ''
                   @ unit_symbol (member (member windObj ''speed'') ''unit'')))
   \<and> (member (member windObj ''speed'') ''value'' = Num (Fin v)
        \<and> member (member windObj ''direction'') ''degrees'' = Num (Fin d) \<and> 0 \<le> d
        \<longrightarrow> fmtWind rt windObj =
              Inr (NumberToString rt (Fin (of_int \<lfloor>v + 1 / 2\<rfloor>)) @ '' ''
                   @ unit_symbol (member (member windObj ''speed'') ''unit'')
                   @ '' '' @ dirs ! compass_index d))
   \<and> unit_symbol (Str ''MILE_PER_HOUR'') = ''mph''
   \<and> unit_symbol (Str ''METER_PER_SECOND'') = ''m/s''
   \<and> (u \<noteq> Str ''MILE_PER_HOUR'' \<and> u \<noteq> Str ''METER_PER_SECOND'' \<longrightarrow> unit_symbol u = ''km/h'')
   \<and> (\<bar>i\<bar> < 2 ^ 53 \<longrightarrow> NumberToString rt (Fin (of_int i)) = show_int i)"
  using fmtWind_absent_speed [of windObj rt] fmtWind_no_direction [of windObj v rt]
    fmtWind_nonneg_degrees [of windObj v d rt] unit_symbol_cases [of u]
    NumberToString_int [of i rt]
  by blast

lemma compass_335: "dirs ! compass_index 335 = ''NNW''"
  by code_simp

lemma compass_m20: "dirs ! compass_index (- 20) = ''NNW''"
  by code_simp

lemma floor_89: "\<lfloor>(89 / 10 :: rat)\<rfloor> = 8"
  by (simp add: floor_eq_iff)

lemma show_3: "show_int 3 = ''3''" by code_simp

lemma floor_72: "\<lfloor>(7 / 2 :: rat)\<rfloor> = 3"
  by (simp add: floor_eq_iff)

theorem fmtWind_rounds_and_points_witness:
  "fmtWind plain_runtime wind_335 = Inr ''8 km/h NNW''
   \<and> fmtWind plain_runtime (Obj [(''speed'', Obj [(''value'', Null)])]) = Inr em_dash
   \<and> fmtWind plain_runtime (Obj [(''speed'', Obj [(''value'', Num (Fin 3)), (''unit'', Str ''MILE_PER_HOUR'')])])
       = Inr ''3 mph''
   \<and> fmtWind plain_runtime
       (Obj [(''speed'', Obj [(''value'', Num (Fin 3)), (''unit'', Str ''METER_PER_SECOND'')]),
             (''direction'', Obj [(''degrees'', Num PInf)])])
       = Inr ''3 m/s''"
  using fmtWind_rounds_and_points [where windObj = wind_335 and rt = plain_runtime
          and v = "42 / 5" and d = 335 and u = "Str ''KILOMETERS_PER_HOUR''" and i = 8]
        fmtWind_rounds_and_points [where windObj = "Obj [(''speed'', Obj [(''value'', Null)])]"
          and rt = plain_runtime and v = 0 and d = 0 and u = Null and i = 3]
        fmtWind_rounds_and_points [where windObj = "Obj [(''speed'', Obj [(''value'', Num (Fin 3)), (''unit'', Str ''MILE_PER_HOUR'')])]"
          and rt = plain_runtime and v = 3 and d = 0 and u = Null and i = 3]
        fmtWind_rounds_and_points [where windObj = "Obj [(''speed'', Obj [(''value'', Num (Fin 3)), (''unit'', Str ''METER_PER_SECOND'')]),
             (''direction'', Obj [(''degrees'', Num PInf)])]"
          and rt = plain_runtime and v = 3 and d = 0 and u = Null and i = 3]
  by (simp add: wind_335_def compass_335 floor_89 floor_72 show_8 show_3)

text \<open>
  C6 as it is stated fails on \<open>- 20\<close> degrees: the formula points to \<open>NNW\<close>, but the
  script's \<open>%\<close> keeps the sign of the degrees, the index is \<open>- 1\<close>, the list has no such
  element and no direction is printed.
\<close>

theorem fmtWind_negative_degrees_counterexample:
  "fmtWind plain_runtime wind_minus_20
     \<noteq> Inr (NumberToString plain_runtime (Fin (of_int \<lfloor>42 / 5 + 1 / 2\<rfloor>)) @ '' ''
            @ unit_symbol (Str ''KILOMETERS_PER_HOUR'') @ '' '' @ dirs ! compass_index (- 20))
   \<and> dirs ! compass_index (- 20) = ''NNW''"
  by (simp add: fmtWind_negative_degrees compass_m20)

subsection \<open>Cache and main program\<close>

lemma index_of_key_timestamp [simp]: "index_of_key ''timestamp'' = None"
  by (simp add: index_of_key_alpha digit_of_def)

lemma index_of_key_data [simp]: "index_of_key ''data'' = None"
  by (simp add: index_of_key_alpha digit_of_def)

lemma getProp_member_defined:
  "\<not> nullish v \<Longrightarrow> k \<noteq> ''length'' \<Longrightarrow> index_of_key k = None \<Longrightarrow> getProp v k = Inr (member v k)"
  by (cases v) (simp_all split: option.splits)

lemma member_nullish: "nullish v \<Longrightarrow> member v k = Undefined"
  by (cases v) simp_all

lemma readCache_missing:
  "cacheFile w = None \<Longrightarrow> readCache rt cm now w = Null"
  by (simp add: readCache_def fileExists_def)

lemma readCache_unparsable:
  "cacheFile w = Some s \<Longrightarrow> JSON_parse rt s = Inl e \<Longrightarrow> readCache rt cm now w = Null"
  by (simp add: readCache_def readCache_body_def readString_def fileExists_def)

lemma readCache_parsed:
  assumes "cacheFile w = Some s" and "JSON_parse rt s = Inr obj"
  shows "readCache rt cm now w =
     (if \<not> truthy (member obj ''timestamp'') then Null
      else case ToNumber rt (member obj ''timestamp'') of
             Inl e \<Rightarrow> Null
           | Inr t \<Rightarrow>
               if num_gt (num_over (num_minus (Fin (of_int now)) t) 60000) cm then Null
               else member obj ''data'')"
proof (cases "nullish obj")
  case True
  then have "getProp obj ''timestamp'' = Inl TypeError"
    by (cases obj) simp_all
  moreover have "member obj ''timestamp'' = Undefined"
    using True by (rule member_nullish)
  ultimately show ?thesis
    using assms by (simp add: readCache_def readCache_body_def readString_def fileExists_def)
next
  case False
  then have "getProp obj ''timestamp'' = Inr (member obj ''timestamp'')"
    and "getProp obj ''data'' = Inr (member obj ''data'')"
    by (simp_all add: getProp_member_defined)
  with assms show ?thesis
    by (cases "ToNumber rt (member obj ''timestamp'')")
       (simp_all add: readCache_def readCache_body_def readString_def fileExists_def Let_def
          del: num_minus.simps num_over.simps num_gt.simps)
qed

lemma readCache_no_timestamp:
  assumes "cacheFile w = Some s" and "JSON_parse rt s = Inr obj"
    and "\<not> truthy (member obj ''timestamp'')"
  shows "readCache rt cm now w = Null"
  using assms by (simp add: readCache_parsed)

lemma readCache_timestamp_raises:
  assumes "cacheFile w = Some s" and "JSON_parse rt s = Inr obj"
    and "truthy (member obj ''timestamp'')"
    and "ToNumber rt (member obj ''timestamp'') = Inl e"
  shows "readCache rt cm now w = Null"
  using assms by (simp add: readCache_parsed)

lemma readCache_whole_timestamp:
  assumes "cacheFile w = Some s" and "JSON_parse rt s = Inr obj"
    and "truthy (member obj ''timestamp'')"
    and "ToNumber rt (member obj ''timestamp'') = Inr (Fin (of_int t))"
  shows "readCache rt cm now w =
           (if (of_int now - of_int t) / 60000 \<le> cm then member obj ''data'' else Null)"
  using assms by (auto simp add: readCache_parsed not_less)

lemma readCache_no_number:
  assumes "cacheFile w = Some s" and "JSON_parse rt s = Inr obj"
    and "truthy (member obj ''timestamp'')"
    and "ToNumber rt (member obj ''timestamp'') = Inr NaN
         \<or> ToNumber rt (member obj ''timestamp'') = Inr PInf"
  shows "readCache rt cm now w = member obj ''data''"
  using assms by (auto simp add: readCache_parsed)

lemma readCache_minus_infinity:
  assumes "cacheFile w = Some s" and "JSON_parse rt s = Inr obj"
    and "truthy (member obj ''timestamp'')"
    and "ToNumber rt (member obj ''timestamp'') = Inr NInf"
  shows "readCache rt cm now w = Null"
  using assms by (simp add: readCache_parsed)

lemma readCache_catches:
  "readCache_body rt cm now w = Inl e \<Longrightarrow> readCache rt cm now w = Null"
  by (simp add: readCache_def)

lemma cm_simps: "CACHE_MIN = 5" "CACHE_MIN_daily = 20"
  by (simp_all add: CACHE_MIN_def CACHE_MIN_daily_def)

lemma readCache_clauses:
  "CACHE_MIN = 5 \<and> CACHE_MIN_daily = 20
   \<and> (cacheFile w = None \<longrightarrow> readCache rt cm now w = Null)
   \<and> (cacheFile w = Some s \<and> JSON_parse rt s = Inl e \<longrightarrow> readCache rt cm now w = Null)
   \<and> (cacheFile w = Some s \<and> JSON_parse rt s = Inr obj \<and> \<not> truthy (member obj ''timestamp'')
        \<longrightarrow> readCache rt cm now w = Null)
   \<and> (cacheFile w = Some s \<and> JSON_parse rt s = Inr obj \<and> truthy (member obj ''timestamp'')
        \<and> ToNumber rt (member obj ''timestamp'') = Inl e'
        \<longrightarrow> readCache rt cm now w = Null)
   \<and> (cacheFile w = Some s \<and> JSON_parse rt s = Inr obj \<and> truthy (member obj ''timestamp'')
        \<and> ToNumber rt (member obj ''timestamp'') = Inr (Fin (of_int t))
        \<longrightarrow> readCache rt cm now w =
              (if (of_int now - of_int t) / 60000 \<le> cm then member obj ''data'' else Null))
   \<and> (cacheFile w = Some s \<and> JSON_parse rt s = Inr obj \<and> truthy (member obj ''timestamp'')
        \<and> (ToNumber rt (member obj ''timestamp'') = Inr NaN
             \<or> ToNumber rt (member obj ''timestamp'') = Inr PInf)
        \<longrightarrow> readCache rt cm now w = member obj ''data'')
   \<and> (cacheFile w = Some s \<and> JSON_parse rt s = Inr obj \<and> truthy (member obj ''timestamp'')
        \<and> ToNumber rt (member obj ''timestamp'') = Inr NInf
        \<longrightarrow> readCache rt cm now w = Null)
   \<and> (readCache_body rt cm now w = Inl e'' \<longrightarrow> readCache rt cm now w = Null)"
  using readCache_missing [of w rt cm now] readCache_unparsable [of w s rt e cm now]
    readCache_no_timestamp [of w s rt obj cm now]
    readCache_timestamp_raises [of w s rt obj e' cm now]
    readCache_whole_timestamp [of w s rt obj t cm now]
    readCache_no_number [of w s rt obj cm now]
    readCache_minus_infinity [of w s rt obj cm now]
    readCache_catches [of rt cm now w e'']
  unfolding cm_simps
  by blast

text \<open>
  C2, amended. The lifetime of the cache is 5 minutes in the current-conditions script
  and 20 in the forecast script. \<open>readCache\<close> never raises: whatever is raised while
  reading is turned into absent. It returns absent when the file is missing, when its
  content does not parse, and when what was parsed has no timestamp or one that counts
  as false (\<open>null\<close>, \<open>false\<close>, \<open>0\<close>, the empty string). For a timestamp that counts as
  true the age is computed from its conversion to a number: when the conversion raises
  the result is absent; when it gives a whole number of milliseconds the result is the
  stored data if the age is at most the lifetime and absent if the age is greater;
  when it gives no number, as for an object or a date in words, or plus infinity, the
  stored data is returned whatever the time of the reading is; when it gives minus
  infinity the result is absent. Timestamps with a fraction of a millisecond are left
  open.
\<close>

theorem readCache_by_timestamp:
  "CACHE_MIN = 5 \<and> CACHE_MIN_daily = 20
   \<and> (cacheFile w = None \<longrightarrow> readCache rt cm now w = Null)
   \<and> (cacheFile w = Some s \<and> JSON_parse rt s = Inl e \<longrightarrow> readCache rt cm now w = Null)
   \<and> (cacheFile w = Some s \<and> JSON_parse rt s = Inr obj \<and> \<not> truthy (member obj ''timestamp'')
        \<longrightarrow> readCache rt cm now w = Null)
   \<and> (cacheFile w = Some s \<and> JSON_parse rt s = Inr obj \<and> truthy (member obj ''timestamp'')
        \<and> ToNumber rt (member obj ''timestamp'') = Inl e'
        \<longrightarrow> readCache rt cm now w = Null)
   \<and> (cacheFile w = Some s \<and> JSON_parse rt s = Inr obj \<and> truthy (member obj ''timestamp'')
        \<and> ToNumber rt (member obj ''timestamp'') = Inr (Fin (of_int t))
        \<longrightarrow> readCache rt cm now w =
              (if (of_int now - of_int t) / 60000 \<le> cm then member obj ''data'' else Null))
   \<and> (cacheFile w = Some s \<and> JSON_parse rt s = Inr obj \<and> truthy (member obj ''timestamp'')
        \<and> (ToNumber rt (member obj ''timestamp'') = Inr NaN
             \<or> ToNumber rt (member obj ''timestamp'') = Inr PInf)
        \<longrightarrow> readCache rt cm now w = member obj ''data'')
   \<and> (cacheFile w = Some s \<and> JSON_parse rt s = Inr obj \<and> truthy (member obj ''timestamp'')
        \<and> ToNumber rt (member obj ''timestamp'') = Inr NInf
        \<longrightarrow> readCache rt cm now w = Null)
   \<and> (readCache_body rt cm now w = Inl e'' \<longrightarrow> readCache rt cm now w = Null)"
  by (rule readCache_clauses)

lemma odr_simps:
  "JSON_parse (one_document_runtime doc) ''document'' = Inr doc"
  "JSON_stringify (one_document_runtime doc) v = ''document''"
  by (simp_all add: one_document_runtime_def)

lemma member_cache_record:
  "member (cache_record t d) ''timestamp'' = Num (Fin (of_int t))"
  "member (cache_record t d) ''data'' = d"
  by (simp_all add: cache_record_def)

lemma member_undated_record:
  "member undated_record ''timestamp'' = Obj []"
  "member undated_record ''data'' = Str ''payload''"
  by (simp_all add: undated_record_def)

theorem readCache_by_timestamp_witness:
  "readCache (one_document_runtime (cache_record 1000000 (Str ''payload''))) CACHE_MIN
      1060000 world_with_cache = Str ''payload''
   \<and> readCache (one_document_runtime (cache_record 1000000 (Str ''payload''))) CACHE_MIN
      1360000 world_with_cache = Null
   \<and> readCache (one_document_runtime (cache_record 1000000 (Str ''payload''))) CACHE_MIN_daily
      1360000 world_with_cache = Str ''payload''
   \<and> readCache (one_document_runtime (cache_record 1000000 (Str ''payload''))) CACHE_MIN_daily
      2260000 world_with_cache = Null
   \<and> readCache (one_document_runtime (Obj [(''data'', Str ''payload'')])) CACHE_MIN
      1060000 world_with_cache = Null
   \<and> readCache (one_document_runtime (Obj [(''timestamp'', Bool False), (''data'', Str ''payload'')]))
      CACHE_MIN 1060000 world_with_cache = Null
   \<and> readCache (one_document_runtime (Obj [(''timestamp'', Obj [(''toString'', Null)]),
                                           (''data'', Str ''payload'')]))
      CACHE_MIN 1060000 world_with_cache = Null
   \<and> readCache (one_document_runtime undated_record) CACHE_MIN 1060000 world_with_cache
      = Str ''payload''
   \<and> readCache (one_document_runtime (Obj [(''timestamp'', Num PInf), (''data'', Str ''payload'')]))
      CACHE_MIN 1060000 world_with_cache = Str ''payload''
   \<and> readCache (one_document_runtime (Obj [(''timestamp'', Num NInf), (''data'', Str ''payload'')]))
      CACHE_MIN 1060000 world_with_cache = Null
   \<and> readCache plain_runtime CACHE_MIN 1060000 world_with_cache = Null
   \<and> readCache plain_runtime CACHE_MIN 1060000 \<lparr>cacheFile = None, writable = True\<rparr> = Null"
proof -
  let ?doc = "cache_record 1000000 (Str ''payload'')"
  let ?rt = "one_document_runtime ?doc"
  let ?bare = "Obj [(''data'', Str ''payload'')]"
  let ?false = "Obj [(''timestamp'', Bool False), (''data'', Str ''payload'')]"
  let ?raising = "Obj [(''timestamp'', Obj [(''toString'', Null)]), (''data'', Str ''payload'')]"
  let ?plus = "Obj [(''timestamp'', Num PInf), (''data'', Str ''payload'')]"
  let ?minus = "Obj [(''timestamp'', Num NInf), (''data'', Str ''payload'')]"
  have f: "cacheFile world_with_cache = Some ''document''"
    by (simp add: world_with_cache_def)
  have 1: "readCache ?rt 5 1060000 world_with_cache = Str ''payload''"
    using readCache_by_timestamp [where w = world_with_cache and rt = ?rt and cm = 5 and now = 1060000
            and s = "''document''" and obj = ?doc and t = 1000000,
            THEN conjunct2, THEN conjunct2]
    by (simp add: f odr_simps member_cache_record)
  have 2: "readCache ?rt 5 1360000 world_with_cache = Null"
    using readCache_by_timestamp [where w = world_with_cache and rt = ?rt and cm = 5 and now = 1360000
            and s = "''document''" and obj = ?doc and t = 1000000,
            THEN conjunct2, THEN conjunct2]
    by (simp add: f odr_simps member_cache_record)
  have 3: "readCache ?rt 20 1360000 world_with_cache = Str ''payload''"
    using readCache_by_timestamp [where w = world_with_cache and rt = ?rt and cm = 20 and now = 1360000
            and s = "''document''" and obj = ?doc and t = 1000000,
            THEN conjunct2, THEN conjunct2]
    by (simp add: f odr_simps member_cache_record)
  have 4: "readCache ?rt 20 2260000 world_with_cache = Null"
    using readCache_by_timestamp [where w = world_with_cache and rt = ?rt and cm = 20 and now = 2260000
            and s = "''document''" and obj = ?doc and t = 1000000,
            THEN conjunct2, THEN conjunct2]
    by (simp add: f odr_simps member_cache_record)
  have 5: "readCache (one_document_runtime ?bare) 5 1060000 world_with_cache = Null"
    using readCache_by_timestamp [where w = world_with_cache and rt = "one_document_runtime ?bare" and cm = 5
            and now = 1060000 and s = "''document''" and obj = ?bare,
            THEN conjunct2, THEN conjunct2]
    by (simp add: f odr_simps)
  have 6: "readCache (one_document_runtime ?false) 5 1060000 world_with_cache = Null"
    using readCache_by_timestamp [where w = world_with_cache and rt = "one_document_runtime ?false" and cm = 5
            and now = 1060000 and s = "''document''" and obj = ?false,
            THEN conjunct2, THEN conjunct2]
    by (simp add: f odr_simps)
  have 7: "readCache (one_document_runtime ?raising) 5 1060000 world_with_cache = Null"
    using readCache_by_timestamp [where w = world_with_cache and rt = "one_document_runtime ?raising" and cm = 5
            and now = 1060000 and s = "''document''" and obj = ?raising and e' = TypeError,
            THEN conjunct2, THEN conjunct2]
    by (simp add: f odr_simps)
  have 8: "readCache (one_document_runtime undated_record) 5 1060000 world_with_cache
             = Str ''payload''"
    using readCache_by_timestamp [where w = world_with_cache and rt = "one_document_runtime undated_record"
            and cm = 5 and now = 1060000 and s = "''document''" and obj = undated_record,
            THEN conjunct2, THEN conjunct2]
    by (simp add: f odr_simps member_undated_record)
  have 11: "readCache (one_document_runtime ?plus) 5 1060000 world_with_cache = Str ''payload''"
    using readCache_by_timestamp [where w = world_with_cache
            and rt = "one_document_runtime ?plus" and cm = 5 and now = 1060000
            and s = "''document''" and obj = ?plus,
            THEN conjunct2, THEN conjunct2]
    by (simp add: f odr_simps)
  have 12: "readCache (one_document_runtime ?minus) 5 1060000 world_with_cache = Null"
    using readCache_by_timestamp [where w = world_with_cache
            and rt = "one_document_runtime ?minus" and cm = 5 and now = 1060000
            and s = "''document''" and obj = ?minus,
            THEN conjunct2, THEN conjunct2]
    by (simp add: f odr_simps)
  have 9: "readCache plain_runtime 5 1060000 world_with_cache = Null"
    using readCache_by_timestamp [where w = world_with_cache and rt = plain_runtime and cm = 5 and now = 1060000
            and s = "''document''" and e = SyntaxError,
            THEN conjunct2, THEN conjunct2]
    by (simp add: f plain_runtime_def)
  have 10: "readCache plain_runtime 5 1060000 \<lparr>cacheFile = None, writable = True\<rparr> = Null"
    using readCache_by_timestamp [where w = "\<lparr>cacheFile = None, writable = True\<rparr>" and rt = plain_runtime
            and cm = 5 and now = 1060000,
            THEN conjunct2, THEN conjunct2]
    by simp
  from 1 2 3 4 5 6 7 8 9 10 11 12 show ?thesis
    unfolding cm_simps by simp
qed

text \<open>
  C2 as it is stated fails on the record \<open>{timestamp: {}, data: "payload"}\<close>: the file
  is there, it parses and it carries a timestamp, but the timestamp is no number, the
  age is not a number and so not at most the lifetime, and the stated result is absent;
  the script's test \<open>ageMin > CACHE_MIN\<close> is false for such an age and \<open>readCache\<close>
  returns the stored data, here at a reading in the year 2100.
\<close>

theorem readCache_undated_record_counterexample:
  "readCache (one_document_runtime undated_record) CACHE_MIN 4102444800000 world_with_cache
     \<noteq> spec_readCache (one_document_runtime undated_record) CACHE_MIN 4102444800000
         world_with_cache
   \<and> readCache (one_document_runtime undated_record) CACHE_MIN 4102444800000 world_with_cache
     = Str ''payload''
   \<and> spec_readCache (one_document_runtime undated_record) CACHE_MIN 4102444800000
       world_with_cache = Null"
proof -
  have f: "cacheFile world_with_cache = Some ''document''"
    by (simp add: world_with_cache_def)
  have "readCache (one_document_runtime undated_record) CACHE_MIN 4102444800000
          world_with_cache = Str ''payload''"
    using readCache_no_number [of world_with_cache "''document''"
            "one_document_runtime undated_record" undated_record CACHE_MIN 4102444800000]
    by (simp add: f odr_simps member_undated_record)
  moreover have "spec_readCache (one_document_runtime undated_record) CACHE_MIN 4102444800000
                   world_with_cache = Null"
    by (simp add: spec_readCache_def f odr_simps member_undated_record)
  ultimately show ?thesis
    by simp
qed

lemma writeCache_writable:
  "writable w \<Longrightarrow>
   writeCache rt now d w = w\<lparr>cacheFile := Some (JSON_stringify rt (cache_record now d))\<rparr>"
  by (simp add: writeCache_def writeString_def)

lemma writeCache_refused: "\<not> writable w \<Longrightarrow> writeCache rt now d w = w"
  by (simp add: writeCache_def writeString_def)

lemma write_then_read:
  assumes "writable w" and "0 < now_w"
    and "JSON_parse rt (JSON_stringify rt (cache_record now_w d)) = Inr (cache_record now_w d)"
    and "(of_int now_r - of_int now_w) / 60000 \<le> cm"
  shows "readCache rt cm now_r (writeCache rt now_w d w) = d"
proof -
  have ts: "getProp (cache_record now_w d) ''timestamp'' = Inr (Num (Fin (of_int now_w)))"
    and da: "getProp (cache_record now_w d) ''data'' = Inr d"
    by (simp_all add: cache_record_def)
  from assms ts da show ?thesis
    by (simp add: writeCache_writable readCache_def readCache_body_def readString_def
          fileExists_def Let_def not_less)
qed

text \<open>
  C8. When the file manager accepts the write, the clock is past the epoch, and the
  runtime parses what it printed of the record back to the record, \<open>readCache\<close> right
  after \<open>writeCache(data)\<close>, within the lifetime, returns the data that was written.
\<close>

theorem writeCache_readCache_roundtrip:
  "writable w \<and> 0 < now_w
   \<and> JSON_parse rt (JSON_stringify rt (cache_record now_w d)) = Inr (cache_record now_w d)
   \<and> (of_int now_r - of_int now_w) / 60000 \<le> cm
   \<longrightarrow> readCache rt cm now_r (writeCache rt now_w d w) = d"
  using write_then_read by blast

theorem writeCache_readCache_roundtrip_witness:
  "readCache (one_document_runtime (cache_record 1000000 (Obj [(''isDaytime'', Bool True)])))
      CACHE_MIN 1000500
      (writeCache (one_document_runtime (cache_record 1000000 (Obj [(''isDaytime'', Bool True)])))
         1000000 (Obj [(''isDaytime'', Bool True)]) \<lparr>cacheFile = None, writable = True\<rparr>)
     = Obj [(''isDaytime'', Bool True)]"
  using writeCache_readCache_roundtrip [of "\<lparr>cacheFile = None, writable = True\<rparr>" 1000000
          "one_document_runtime (cache_record 1000000 (Obj [(''isDaytime'', Bool True)]))"
          "Obj [(''isDaytime'', Bool True)]" 1000500 CACHE_MIN]
  by (simp add: odr_simps cm_simps)

lemma main_data_success:
  "fetch rt req = Inr fresh \<Longrightarrow>
   main_data rt cm fetch req now_r now_w w = (Inr fresh, writeCache rt now_w fresh w)"
  by (simp add: main_data_def)

lemma main_data_fallback:
  "fetch rt req = Inl e \<Longrightarrow> truthy (readCache rt cm now_r w) \<Longrightarrow>
   main_data rt cm fetch req now_r now_w w = (Inr (readCache rt cm now_r w), w)"
  by (simp add: main_data_def)

lemma main_data_failure:
  "fetch rt req = Inl e \<Longrightarrow> \<not> truthy (readCache rt cm now_r w) \<Longrightarrow>
   main_data rt cm fetch req now_r now_w w = (Inl e, w)"
  by (simp add: main_data_def)

text \<open>
  C1, amended. In both scripts: when the fetch succeeds, the data adopted is the fresh
  response and \<open>writeCache\<close> is run on it, which overwrites the cache file whenever the
  file manager accepts the write. When the fetch fails and the value read from the cache
  counts as true (every object and array does), that value is adopted, the cache is left
  as it is and no error is passed on. When the fetch fails and the value read is absent
  or counts as false, the error of the fetch is passed on.
\<close>

theorem main_data_policy:
  "(fetch rt req = Inr fresh
      \<longrightarrow> main_data rt cm fetch req now_r now_w w = (Inr fresh, writeCache rt now_w fresh w))
   \<and> (writable w
      \<longrightarrow> cacheFile (writeCache rt now_w fresh w)
            = Some (JSON_stringify rt (cache_record now_w fresh)))
   \<and> (fetch rt req = Inl e \<and> truthy (readCache rt cm now_r w)
      \<longrightarrow> main_data rt cm fetch req now_r now_w w = (Inr (readCache rt cm now_r w), w))
   \<and> (fetch rt req = Inl e \<and> \<not> truthy (readCache rt cm now_r w)
      \<longrightarrow> main_data rt cm fetch req now_r now_w w = (Inl e, w))
   \<and> main_current rt = main_data rt 5 fetchWeather
   \<and> main_daily rt = main_data rt 20 fetchForecast"
  using main_data_success [of fetch rt req fresh cm now_r now_w w]
    main_data_fallback [of fetch rt req e cm now_r w now_w]
    main_data_failure [of fetch rt req e cm now_r w now_w]
  by (simp add: writeCache_writable main_current_def main_daily_def cm_simps)

lemma fetch_failing: "fetchWeather rt failing_reply = Inl (NetworkError ''timed out'')"
  by (simp add: fetchWeather_def failing_reply_def)

lemma fetch_ok:
  "fetchWeather rt \<lparr>loadJSON = Inr v, response = Null\<rparr> = Inr v"
  by (simp add: fetchWeather_def)

lemma read_cached:
  "0 < t \<Longrightarrow> (of_int now - of_int t) / 60000 \<le> cm \<Longrightarrow>
   readCache (one_document_runtime (cache_record t d)) cm now world_with_cache = d"
  by (simp add: readCache_def readCache_body_def readString_def fileExists_def
        world_with_cache_def odr_simps cache_record_def Let_def not_less)

theorem main_data_policy_witness:
  "main_current (one_document_runtime (cache_record 1000000 (Obj [(''isDaytime'', Bool True)])))
      failing_reply 1060000 1060001 world_with_cache
     = (Inr (Obj [(''isDaytime'', Bool True)]), world_with_cache)
   \<and> main_daily plain_runtime failing_reply 1060000 1060001 world_with_cache
     = (Inl (NetworkError ''timed out''), world_with_cache)
   \<and> main_current (one_document_runtime (cache_record 1000000 (Obj [(''isDaytime'', Bool True)])))
      \<lparr>loadJSON = Inr (Obj [(''isDaytime'', Bool False)]), response = Null\<rparr>
      1060000 1060001 \<lparr>cacheFile = None, writable = True\<rparr>
     = (Inr (Obj [(''isDaytime'', Bool False)]), world_with_cache)"
proof -
  let ?rt = "one_document_runtime (cache_record 1000000 (Obj [(''isDaytime'', Bool True)]))"
  let ?ok = "\<lparr>loadJSON = Inr (Obj [(''isDaytime'', Bool False)]), response = Null\<rparr>"
  let ?err = "NetworkError ''timed out''"
  have c: "readCache ?rt 5 1060000 world_with_cache = Obj [(''isDaytime'', Bool True)]"
    by (simp add: read_cached)
  have n: "readCache plain_runtime 20 1060000 world_with_cache = Null"
    by (rule readCache_unparsable [of _ "''document''" _ SyntaxError])
       (simp_all add: world_with_cache_def plain_runtime_def)
  have w: "writeCache ?rt 1060001 (Obj [(''isDaytime'', Bool False)])
             \<lparr>cacheFile = None, writable = True\<rparr> = world_with_cache"
    by (simp add: writeCache_writable odr_simps world_with_cache_def)
  have 1: "main_current ?rt failing_reply 1060000 1060001 world_with_cache
             = (Inr (Obj [(''isDaytime'', Bool True)]), world_with_cache)"
    using main_data_policy [of fetchWeather ?rt failing_reply "Obj []" 5 1060000 1060001
            world_with_cache ?err]
    by (simp add: fetch_failing c)
  have 2: "main_daily plain_runtime failing_reply 1060000 1060001 world_with_cache
             = (Inl ?err, world_with_cache)"
    using main_data_policy [of fetchForecast plain_runtime failing_reply "Obj []" 20 1060000
            1060001 world_with_cache ?err]
    by (simp add: fetchForecast_def fetch_failing n)
  have 3: "main_current ?rt ?ok 1060000 1060001 \<lparr>cacheFile = None, writable = True\<rparr>
             = (Inr (Obj [(''isDaytime'', Bool False)]), world_with_cache)"
    using main_data_policy [of fetchWeather ?rt ?ok "Obj [(''isDaytime'', Bool False)]" 5
            1060000 1060001 "\<lparr>cacheFile = None, writable = True\<rparr>" ?err]
    by (simp add: fetch_ok w)
  from 1 2 3 show ?thesis
    by simp
qed

text \<open>
  C1 as it is stated fails when the cached data is \<open>false\<close>: the record is valid and
  \<open>readCache\<close> returns its data, yet after a failed fetch the error is passed on.
\<close>

theorem main_data_falsy_cache_counterexample:
  "main_current (one_document_runtime (cache_record 1000000 (Bool False)))
      failing_reply 1060000 1060001 world_with_cache
   \<noteq> spec_main_data (one_document_runtime (cache_record 1000000 (Bool False))) CACHE_MIN
      fetchWeather failing_reply 1060000 1060001 world_with_cache
   \<and> readCache (one_document_runtime (cache_record 1000000 (Bool False))) CACHE_MIN 1060000
       world_with_cache = Bool False"
  by (simp add: main_current_def main_data_def spec_main_data_def fetch_failing read_cached cm_simps)

end
